theory Spec2Isabelle
  imports Complex_Main "HOL-Library.Word"
begin

unbundle bit_operations_syntax

section \<open>Strings and the standard-library helpers used by the vote decoder\<close>

text \<open>
  A Go \<open>string\<close> is a sequence of bytes; \<open>len\<close> and indexing work on bytes. The model
  uses \<^typ>\<open>string\<close>, a list of 8-bit characters. \<open>byteval\<close> reads one byte as a number.
\<close>

definition byteval :: "char \<Rightarrow> nat" where
  "byteval c = of_char c"

text \<open>
  \<open>strings.EqualFold(s, t)\<close> of the Go standard library. Its ASCII path is written out:
  it walks both strings byte by byte; two ASCII bytes match when they are equal or when
  they are the upper-case and lower-case form of one letter; the result at the end is
  \<open>len(s) == len(t)\<close>. As soon as either byte is not ASCII (\<open>sr|tr >= utf8.RuneSelf\<close>)
  the library continues on the remaining suffixes with Unicode simple case folding, which
  reads the library's Unicode tables. That continuation is the parameter \<open>uf\<close>, applied to
  the two remaining suffixes.
\<close>

fun EqualFold :: "(string \<Rightarrow> string \<Rightarrow> bool) \<Rightarrow> string \<Rightarrow> string \<Rightarrow> bool" where
  "EqualFold uf [] [] = True"
| "EqualFold uf [] (tr # t) = False"
| "EqualFold uf (sr # s) [] = False"
| "EqualFold uf (sr # s) (tr # t) =
     (if 128 \<le> byteval sr \<or> 128 \<le> byteval tr then uf (sr # s) (tr # t)
      else if tr = sr then EqualFold uf s t
      else
        let lo = min (byteval sr) (byteval tr); hi = max (byteval sr) (byteval tr) in
        if 65 \<le> lo \<and> lo \<le> 90 \<and> hi = lo + 32 then EqualFold uf s t
        else False)"

text \<open>
  The value of one hexadecimal digit, as \<open>strconv.ParseUint\<close> in base 16 reads it:
  \<open>0\<close>-\<open>9\<close>, \<open>a\<close>-\<open>f\<close> and \<open>A\<close>-\<open>F\<close>.
\<close>

definition hexval :: "char \<Rightarrow> nat option" where
  "hexval c =
     (let n = byteval c in
      if 48 \<le> n \<and> n \<le> 57 then Some (n - 48)
      else if 97 \<le> n \<and> n \<le> 102 then Some (n - 87)
      else if 65 \<le> n \<and> n \<le> 70 then Some (n - 55)
      else None)"

text \<open>
  \<open>fmt.Sscanf(voteHex, "%02x", &voteByte)\<close> on the two bytes \<open>voteHex\<close>, with
  \<open>voteByte\<close> starting at 0 and the error result dropped, as the decoder calls it. The
  value is the byte left in \<open>voteByte\<close>. The scan skips leading blanks (tab, vertical tab,
  form feed, carriage return, space; a newline is an error), then reads the longest run
  of hexadecimal digits, at most two, and parses it in base 16; an input of two bytes has
  no room for more. What follows the digits is left unread and is no error, so one digit
  followed by any other byte gives the value of that digit. With no digit to read the scan
  fails and \<open>voteByte\<close> keeps its 0; this is also the outcome for every byte that is not
  ASCII, which the scanner reads as a rune that is neither a digit nor followed by one.
\<close>

definition isBlank :: "char \<Rightarrow> bool" where
  "isBlank c = (byteval c \<in> {9, 11, 12, 13, 32})"

definition sscanf_02x :: "string \<Rightarrow> 8 word" where
  "sscanf_02x voteHex =
     (case voteHex of
        [a, b] \<Rightarrow>
          (case hexval a of
             Some x \<Rightarrow>
               (case hexval b of
                  Some y \<Rightarrow> word_of_nat (16 * x + y)
                | None \<Rightarrow> word_of_nat x)
           | None \<Rightarrow>
               if isBlank a then (case hexval b of Some y \<Rightarrow> word_of_nat y | None \<Rightarrow> 0)
               else 0)
      | _ \<Rightarrow> 0)"

section \<open>The vote-bits decoder\<close>

text \<open>
  Go panics on an index or a slice bound that is out of range. The model makes the panic
  a value: every indexing and slicing operation returns an option, \<open>None\<close> for the
  panic, and the functions that use them return \<open>None\<close> as soon as one operation does.
  \<open>byte_at s k\<close> is \<open>s[k]\<close>, \<open>set_byte\<close> is the assignment \<open>r[k] = c\<close>,
  \<open>slice_from s a\<close> is \<open>s[a:]\<close>, \<open>slice_to s b\<close> is \<open>s[:b]\<close> and
  \<open>slice_between s a b\<close> is \<open>s[a:b]\<close>. Indices are Go \<open>int\<close>s and may be negative.
\<close>

definition byte_at :: "string \<Rightarrow> int \<Rightarrow> char option" where
  "byte_at s k = (if 0 \<le> k \<and> k < int (length s) then Some (s ! nat k) else None)"

definition set_byte :: "string \<Rightarrow> int \<Rightarrow> char \<Rightarrow> string option" where
  "set_byte r k c = (if 0 \<le> k \<and> k < int (length r) then Some (r[nat k := c]) else None)"

definition slice_from :: "string \<Rightarrow> nat \<Rightarrow> string option" where
  "slice_from s a = (if a \<le> length s then Some (drop a s) else None)"

definition slice_to :: "string \<Rightarrow> nat \<Rightarrow> string option" where
  "slice_to s b = (if b \<le> length s then Some (take b s) else None)"

definition slice_between :: "string \<Rightarrow> nat \<Rightarrow> nat \<Rightarrow> string option" where
  "slice_between s a b = (if a \<le> b \<and> b \<le> length s then Some (take (b - a) (drop a s)) else None)"

text \<open>
  \<open>reverseHexBytes\<close>: a string of odd length is returned as it is. Otherwise a result
  buffer of the same length is filled two bytes at a time, the pair at \<open>i\<close> taken from
  position \<open>len - i - 2\<close> of the input.
\<close>

function reverseHexBytes_loop :: "string \<Rightarrow> nat \<Rightarrow> string \<Rightarrow> string option" where
  "reverseHexBytes_loop hexStr i result =
     (if i < length hexStr then
        let srcPos = int (length hexStr) - int i - 2 in
        (case byte_at hexStr srcPos of
           None \<Rightarrow> None
         | Some c0 \<Rightarrow>
             (case set_byte result (int i) c0 of
                None \<Rightarrow> None
              | Some result1 \<Rightarrow>
                  (case byte_at hexStr (srcPos + 1) of
                     None \<Rightarrow> None
                   | Some c1 \<Rightarrow>
                       (case set_byte result1 (int i + 1) c1 of
                          None \<Rightarrow> None
                        | Some result2 \<Rightarrow> reverseHexBytes_loop hexStr (i + 2) result2))))
      else Some result)"
  by pat_completeness auto
termination
  by (relation "measure (\<lambda>(hexStr, i, result). length hexStr - i)") auto

declare reverseHexBytes_loop.simps [simp del]

definition reverseHexBytes :: "string \<Rightarrow> string option" where
  "reverseHexBytes hexStr =
     (if length hexStr mod 2 \<noteq> 0 then Some hexStr
      else reverseHexBytes_loop hexStr 0 (replicate (length hexStr) (CHR 0x00)))"

text \<open>
  \<open>parseVoteBitsForTSpend\<close>, with the source's checks in the source's order. The result
  is \<open>Some label\<close>, or \<open>None\<close> had a slice or an index been out of range.
\<close>

definition parseVoteBitsForTSpend ::
    "(string \<Rightarrow> string \<Rightarrow> bool) \<Rightarrow> string \<Rightarrow> string \<Rightarrow> string option" where
  "parseVoteBitsForTSpend uf hexData tspendHash =
     (if length hexData < 4 then Some ''unknown''
      else
        let dataStart = 4 in
        if length hexData \<le> dataStart then Some ''unknown''
        else
          (case slice_from hexData dataStart of
             None \<Rightarrow> None
           | Some dataHex \<Rightarrow>
               if length dataHex < 4 then Some ''unknown''
               else
                 (case slice_from dataHex 4 of
                    None \<Rightarrow> None
                  | Some dataWithoutPrefix \<Rightarrow>
                      if length dataWithoutPrefix < 64 then Some ''unknown''
                      else
                        (case slice_to dataWithoutPrefix 64 of
                           None \<Rightarrow> None
                         | Some hashHex \<Rightarrow>
                             (case reverseHexBytes hashHex of
                                None \<Rightarrow> None
                              | Some reversedHash \<Rightarrow>
                                  if \<not> EqualFold uf reversedHash tspendHash then Some ''unknown''
                                  else if length dataWithoutPrefix < 66 then Some ''unknown''
                                  else
                                    (case slice_between dataWithoutPrefix 64 66 of
                                       None \<Rightarrow> None
                                     | Some voteHex \<Rightarrow>
                                         let voteByte = sscanf_02x voteHex;
                                             voteChoice = voteByte AND 0x03 in
                                         if voteChoice = 0x00 then Some ''abstain''
                                         else if voteChoice = 0x01 then Some ''yes''
                                         else if voteChoice = 0x02 then Some ''no''
                                         else if voteChoice = 0x03 then Some ''invalid''
                                         else Some ''unknown''))))))"

section \<open>Hexadecimal encodings and vote choices, as the specification names them\<close>

text \<open>
  These definitions are not taken from the decoder: they say what "a hash written as hex
  characters" and "a choice encoded in the low two bits" mean, so that the decoder can be
  compared with them. \<open>hex_decode\<close> reads a string of hexadecimal digit pairs (either
  case) as a list of bytes, as \<open>encoding/hex\<close> does; \<open>rev_pairs\<close> reverses a string pair
  by pair.
\<close>

fun hex_decode :: "string \<Rightarrow> 8 word list option" where
  "hex_decode [] = Some []"
| "hex_decode [a] = None"
| "hex_decode (a # b # r) =
     (case hexval a of
        None \<Rightarrow> None
      | Some x \<Rightarrow>
          (case hexval b of
             None \<Rightarrow> None
           | Some y \<Rightarrow>
               (case hex_decode r of
                  None \<Rightarrow> None
                | Some bs \<Rightarrow> Some (word_of_nat (16 * x + y) # bs))))"

fun rev_pairs :: "'a list \<Rightarrow> 'a list" where
  "rev_pairs (a # b # r) = rev_pairs r @ [a, b]"
| "rev_pairs r = r"

datatype choice = Yes | No | Abstain | Invalid

fun choice_bits :: "choice \<Rightarrow> 8 word" where
  "choice_bits Abstain = 0"
| "choice_bits Yes = 1"
| "choice_bits No = 2"
| "choice_bits Invalid = 3"

fun choice_label :: "choice \<Rightarrow> string" where
  "choice_label Abstain = ''abstain''"
| "choice_label Yes = ''yes''"
| "choice_label No = ''no''"
| "choice_label Invalid = ''invalid''"


section \<open>Transaction records\<close>

text \<open>
  A transaction arrives as \<open>map[string]interface{}\<close>, decoded from JSON. An
  \<open>interface{}\<close> value decoded by \<open>encoding/json\<close> is \<open>nil\<close>, a \<open>bool\<close>, a
  \<open>float64\<close>, a \<open>string\<close>, a \<open>[]interface{}\<close> or a \<open>map[string]interface{}\<close>. A
  map is an association list read with \<^const>\<open>map_of\<close>; a key that is absent reads as
  \<open>None\<close>, which is Go's \<open>nil\<close> result of indexing the map. A \<open>float64\<close> read from JSON
  is a finite number, so it is a rational.
\<close>

datatype json =
    JNull
  | JBool bool
  | JNum rat
  | JStr string
  | JArr "json list"
  | JObj "(string \<times> json) list"

type_synonym jobject = "(string \<times> json) list"

text \<open>
  The two-result type assertions \<open>v.(T)\<close>: they give \<open>ok = false\<close> (here \<open>None\<close>) when
  the value is absent, \<open>nil\<close> or of another type, and never panic.
\<close>

definition asArray :: "json option \<Rightarrow> json list option" where
  "asArray v = (case v of Some (JArr xs) \<Rightarrow> Some xs | _ \<Rightarrow> None)"

definition asObject :: "json option \<Rightarrow> jobject option" where
  "asObject v = (case v of Some (JObj m) \<Rightarrow> Some m | _ \<Rightarrow> None)"

definition asString :: "json option \<Rightarrow> string option" where
  "asString v = (case v of Some (JStr s) \<Rightarrow> Some s | _ \<Rightarrow> None)"

definition asFloat :: "json option \<Rightarrow> rat option" where
  "asFloat v = (case v of Some (JNum n) \<Rightarrow> Some n | _ \<Rightarrow> None)"

text \<open>
  \<open>strings.ToLower\<close> and \<open>strings.Contains\<close>. \<open>ToLower\<close> is modelled on bytes: the
  ASCII capitals are lowered, every other byte is kept. The library also lowers letters
  outside ASCII; of those only the Kelvin sign and the dotted capital I become ASCII
  letters (\<open>k\<close> and \<open>i\<close>), and neither occurs in the one pattern searched for here.
\<close>

definition lowerByte :: "char \<Rightarrow> char" where
  "lowerByte c = (if 65 \<le> byteval c \<and> byteval c \<le> 90 then char_of (byteval c + 32) else c)"

definition ToLower :: "string \<Rightarrow> string" where
  "ToLower s = map lowerByte s"

fun Contains :: "string \<Rightarrow> string \<Rightarrow> bool" where
  "Contains [] substr = (substr = [])"
| "Contains (c # s) substr = (take (length substr) (c # s) = substr \<or> Contains s substr)"

section \<open>The spend detector\<close>

text \<open>
  \<open>isTreasurySpend\<close>. The first loop runs over \<open>vin\<close> and returns \<open>true\<close> at the first
  input that is an object with the key \<open>treasuryspend\<close>. The second loop runs over
  \<open>vout\<close> and returns \<open>true\<close> at the first output whose \<open>scriptPubKey.type\<close> contains
  \<open>treasurygen\<close> when the transaction's \<open>version\<close> is 3; \<open>version, _ := ...\<close> reads 0
  when the field is absent or not a number. No operation of the function can panic.
\<close>

fun isTreasurySpend_vin :: "json list \<Rightarrow> bool" where
  "isTreasurySpend_vin [] = False"
| "isTreasurySpend_vin (v # vin) =
     (case asObject (Some v) of
        None \<Rightarrow> isTreasurySpend_vin vin
      | Some vinMap \<Rightarrow>
          if map_of vinMap ''treasuryspend'' \<noteq> None then True
          else isTreasurySpend_vin vin)"

fun isTreasurySpend_vout :: "jobject \<Rightarrow> json list \<Rightarrow> bool" where
  "isTreasurySpend_vout tx [] = False"
| "isTreasurySpend_vout tx (v # vout) =
     (case asObject (Some v) of
        None \<Rightarrow> isTreasurySpend_vout tx vout
      | Some voutMap \<Rightarrow>
          (case asObject (map_of voutMap ''scriptPubKey'') of
             None \<Rightarrow> isTreasurySpend_vout tx vout
           | Some scriptPubKey \<Rightarrow>
               (case asString (map_of scriptPubKey ''type'') of
                  None \<Rightarrow> isTreasurySpend_vout tx vout
                | Some scriptType \<Rightarrow>
                    if Contains (ToLower scriptType) ''treasurygen'' then
                      let version = (case asFloat (map_of tx ''version'') of
                                       Some n \<Rightarrow> n | None \<Rightarrow> 0) in
                      if version = 3 then True
                      else isTreasurySpend_vout tx vout
                    else isTreasurySpend_vout tx vout)))"

definition isTreasurySpend :: "jobject \<Rightarrow> bool" where
  "isTreasurySpend tx =
     (if (case asArray (map_of tx ''vin'') of
            Some vin \<Rightarrow> length vin > 0 \<and> isTreasurySpend_vin vin
          | None \<Rightarrow> False)
      then True
      else
        (case asArray (map_of tx ''vout'') of
           Some vout \<Rightarrow> length vout > 0 \<and> isTreasurySpend_vout tx vout
         | None \<Rightarrow> False))"

text \<open>
  The two signals as the specification words them, to compare the detector with. An
  input is an element of the \<open>vin\<close> array, an output an element of the \<open>vout\<close> array;
  a field that is absent or of the wrong type gives no signal.
\<close>

definition has_input_marker :: "jobject \<Rightarrow> bool" where
  "has_input_marker tx =
     (\<exists>vin vinMap. map_of tx ''vin'' = Some (JArr vin) \<and> JObj vinMap \<in> set vin \<and>
        ''treasuryspend'' \<in> dom (map_of vinMap))"

definition has_treasurygen_output :: "jobject \<Rightarrow> bool" where
  "has_treasurygen_output tx =
     (\<exists>vout voutMap scriptPubKey scriptType.
        map_of tx ''vout'' = Some (JArr vout) \<and> JObj voutMap \<in> set vout \<and>
        map_of voutMap ''scriptPubKey'' = Some (JObj scriptPubKey) \<and>
        map_of scriptPubKey ''type'' = Some (JStr scriptType) \<and>
        Contains (ToLower scriptType) ''treasurygen'')"

definition version_is_3 :: "jobject \<Rightarrow> bool" where
  "version_is_3 tx = (map_of tx ''version'' = Some (JNum 3))"

section \<open>Vote transactions and the per-transaction vote decoder\<close>

text \<open>
  \<open>isVoteTransaction\<close>: the first input must be an object with the key \<open>stakebase\<close>;
  \<open>vin[0]\<close> is read only after \<open>len(vin) == 0\<close> has been excluded.
\<close>

definition isVoteTransaction :: "jobject \<Rightarrow> bool" where
  "isVoteTransaction tx =
     (case asArray (map_of tx ''vin'') of
        None \<Rightarrow> False
      | Some vin \<Rightarrow>
          if length vin = 0 then False
          else
            (case asObject (Some (vin ! 0)) of
               None \<Rightarrow> False
             | Some firstVin \<Rightarrow> map_of firstVin ''stakebase'' \<noteq> None))"

text \<open>
  \<open>parseTSpendVote\<close>: the loop over the outputs, then the function. \<open>scriptType, _ :=
  ...\<close> reads the empty string when the field is absent or not a string. The result is
  \<open>None\<close> only if the bit decoder panicked.
\<close>

fun parseTSpendVote_loop ::
    "(string \<Rightarrow> string \<Rightarrow> bool) \<Rightarrow> json list \<Rightarrow> string \<Rightarrow> string option" where
  "parseTSpendVote_loop uf [] tspendHash = Some ''unknown''"
| "parseTSpendVote_loop uf (output # vout) tspendHash =
     (case asObject (Some output) of
        None \<Rightarrow> parseTSpendVote_loop uf vout tspendHash
      | Some voutMap \<Rightarrow>
          (case asObject (map_of voutMap ''scriptPubKey'') of
             None \<Rightarrow> parseTSpendVote_loop uf vout tspendHash
           | Some scriptPubKey \<Rightarrow>
               let scriptType = (case asString (map_of scriptPubKey ''type'') of
                                   Some s \<Rightarrow> s | None \<Rightarrow> []) in
               if scriptType \<noteq> ''nulldata'' then parseTSpendVote_loop uf vout tspendHash
               else
                 (case asString (map_of scriptPubKey ''hex'') of
                    None \<Rightarrow> parseTSpendVote_loop uf vout tspendHash
                  | Some hexData \<Rightarrow>
                      if hexData = [] then parseTSpendVote_loop uf vout tspendHash
                      else
                        (case parseVoteBitsForTSpend uf hexData tspendHash of
                           None \<Rightarrow> None
                         | Some vote \<Rightarrow>
                             if vote \<noteq> ''unknown'' then Some vote
                             else parseTSpendVote_loop uf vout tspendHash))))"

definition parseTSpendVote ::
    "(string \<Rightarrow> string \<Rightarrow> bool) \<Rightarrow> jobject \<Rightarrow> string \<Rightarrow> string option" where
  "parseTSpendVote uf tx tspendHash =
     (case asArray (map_of tx ''vout'') of
        None \<Rightarrow> Some ''unknown''
      | Some vout \<Rightarrow>
          if length vout < 2 then Some ''unknown''
          else parseTSpendVote_loop uf vout tspendHash)"

section \<open>The ledger data source\<close>

text \<open>
  The node behind \<open>rpc.DcrdClient\<close> is outside the program. The model takes it as a
  record of the answers it gives: each call either fails (\<open>None\<close>) or returns its
  decoded result. \<open>clientAvailable\<close> is \<open>rpc.DcrdClient != nil\<close>. \<open>getblock\<close> and
  \<open>getrawtransaction\<close> stand for the raw request together with the \<open>json.Unmarshal\<close>
  of its answer; where the source treats a failure of the two differently
  (\<open>getrawmempool\<close>) the answer has a constructor for each. Block heights are \<open>int64\<close>
  in the source and \<^typ>\<open>int\<close> here: every height the functions below compute from
  heights of an actual chain stays far inside the 64-bit range.
\<close>

record block =
  Hash :: string
  Height :: int
  Time :: int
  Tx :: "string list"
  STx :: "string list"

datatype mempool_reply = RequestFailed | UnmarshalFailed | MempoolKeys "string list"

record ledger =
  clientAvailable :: bool
  GetBlockCount :: "int option"
  GetBlockHash :: "int \<Rightarrow> string option"
  getblock :: "string \<Rightarrow> block option"
  getrawtransaction :: "string \<Rightarrow> jobject option"
  getblockheader :: "string \<Rightarrow> int option"
  getrawmempool :: mempool_reply
  GetTreasuryBalance :: "int option"

definition TreasuryActivationHeight :: int where
  "TreasuryActivationHeight = 552448"

definition getTransaction :: "ledger \<Rightarrow> string \<Rightarrow> jobject option" where
  "getTransaction L txHash = getrawtransaction L txHash"

text \<open>
  Go's integer division truncates towards zero. \<open>float64\<close> arithmetic is modelled by
  exact rational arithmetic: where the code rounds a sum, a product or a quotient to the
  nearest \<open>float64\<close> the model keeps the unrounded value, so the two can differ in the
  last binary place, and a truncation of such a value can differ by one. The conversion
  \<open>int64(f)\<close> of a \<open>float64\<close> truncates towards zero; for a value outside the 64-bit
  range Go leaves the result to the implementation, and the model is exact inside the
  range only. \<open>wrap64\<close> is the wrap-around of 64-bit signed arithmetic and \<open>in_int64\<close>
  the range in which it changes nothing.
\<close>

definition go_div :: "int \<Rightarrow> int \<Rightarrow> int" where
  "go_div a b = sgn a * sgn b * (\<bar>a\<bar> div \<bar>b\<bar>)"

definition truncate_rat :: "rat \<Rightarrow> int" where
  "truncate_rat q = (if 0 \<le> q then \<lfloor>q\<rfloor> else \<lceil>q\<rceil>)"

definition wrap64 :: "int \<Rightarrow> int" where
  "wrap64 x = signed_take_bit 63 x"

definition in_int64 :: "int \<Rightarrow> bool" where
  "in_int64 x = (- (2 ^ 63) \<le> x \<and> x < 2 ^ 63)"

section \<open>Vote counting\<close>

text \<open>
  The body of the block loop is the same in \<open>countTSpendVotesInRange\<close> and in
  \<open>calculateTSpendVotesAsync\<close>: fetch the block hash, fetch the block, and for each
  stake transaction fetch it, check that it is a vote and count its \<open>yes\<close> or \<open>no\<close>.
  Every failed fetch is skipped with \<open>continue\<close>. \<open>countVotes_stx\<close> is the inner
  loop, \<open>fetchStakeTxs\<close> the two fetches of a block (\<open>None\<close> when either fails) and
  \<open>countVotes_block\<close> the body for one height; the pair is \<open>(yesVotes, noVotes)\<close>.
  The result of a count is \<open>None\<close> only if the vote decoder panicked.
\<close>

fun countVotes_stx ::
    "(string \<Rightarrow> string \<Rightarrow> bool) \<Rightarrow> ledger \<Rightarrow> string \<Rightarrow> string list \<Rightarrow> int \<times> int \<Rightarrow>
     (int \<times> int) option" where
  "countVotes_stx uf L txHash [] (yesVotes, noVotes) = Some (yesVotes, noVotes)"
| "countVotes_stx uf L txHash (stxHash # stx) (yesVotes, noVotes) =
     (case getTransaction L stxHash of
        None \<Rightarrow> countVotes_stx uf L txHash stx (yesVotes, noVotes)
      | Some tx \<Rightarrow>
          if \<not> isVoteTransaction tx then countVotes_stx uf L txHash stx (yesVotes, noVotes)
          else
            (case parseTSpendVote uf tx txHash of
               None \<Rightarrow> None
             | Some vote \<Rightarrow>
                 if vote = ''yes'' then countVotes_stx uf L txHash stx (yesVotes + 1, noVotes)
                 else if vote = ''no'' then countVotes_stx uf L txHash stx (yesVotes, noVotes + 1)
                 else countVotes_stx uf L txHash stx (yesVotes, noVotes)))"

definition fetchStakeTxs :: "ledger \<Rightarrow> int \<Rightarrow> string list option" where
  "fetchStakeTxs L height =
     (case GetBlockHash L height of
        None \<Rightarrow> None
      | Some blockHash \<Rightarrow>
          (case getblock L blockHash of
             None \<Rightarrow> None
           | Some blk \<Rightarrow> Some (STx blk)))"

definition countVotes_block ::
    "(string \<Rightarrow> string \<Rightarrow> bool) \<Rightarrow> ledger \<Rightarrow> string \<Rightarrow> int \<Rightarrow> int \<times> int \<Rightarrow>
     (int \<times> int) option" where
  "countVotes_block uf L txHash height votes =
     (case fetchStakeTxs L height of
        None \<Rightarrow> Some votes
      | Some stx \<Rightarrow> countVotes_stx uf L txHash stx votes)"

function countTSpendVotesInRange_loop ::
    "(string \<Rightarrow> string \<Rightarrow> bool) \<Rightarrow> ledger \<Rightarrow> string \<Rightarrow> int \<Rightarrow> int \<Rightarrow> int \<times> int \<Rightarrow>
     (int \<times> int) option" where
  "countTSpendVotesInRange_loop uf L txHash height endHeight votes =
     (if height \<le> endHeight then
        (case countVotes_block uf L txHash height votes of
           None \<Rightarrow> None
         | Some votes' \<Rightarrow> countTSpendVotesInRange_loop uf L txHash (height + 1) endHeight votes')
      else Some votes)"
  by pat_completeness auto
termination
  by (relation "measure (\<lambda>(uf, L, txHash, height, endHeight, votes). nat (endHeight + 1 - height))")
     auto

declare countTSpendVotesInRange_loop.simps [simp del]

definition countTSpendVotesInRange ::
    "(string \<Rightarrow> string \<Rightarrow> bool) \<Rightarrow> ledger \<Rightarrow> string \<Rightarrow> int \<Rightarrow> int \<Rightarrow> (int \<times> int) option" where
  "countTSpendVotesInRange uf L txHash startHeight endHeight =
     (let maxScanRange = 3000;
          startHeight' = (if endHeight - startHeight > maxScanRange
                          then endHeight - maxScanRange else startHeight)
      in countTSpendVotesInRange_loop uf L txHash startHeight' endHeight (0, 0))"

text \<open>
  \<open>getBlockTimestamps\<close>: a \<open>time.Time\<close> is the block header's Unix time, \<open>None\<close> the
  zero time left when a fetch fails.
\<close>

definition blockTimestamp :: "ledger \<Rightarrow> int \<Rightarrow> int option" where
  "blockTimestamp L height =
     (case GetBlockHash L height of
        None \<Rightarrow> None
      | Some h \<Rightarrow> getblockheader L h)"

definition getBlockTimestamps :: "ledger \<Rightarrow> int \<Rightarrow> int \<Rightarrow> int option \<times> int option" where
  "getBlockTimestamps L startHeight endHeight =
     (blockTimestamp L startHeight, blockTimestamp L endHeight)"

section \<open>The synchronous tally\<close>

record TSpendVotingInfo =
  VotingStartBlock :: int
  VotingEndBlock :: int
  YesVotes :: int
  NoVotes :: int
  EligibleVotes :: int
  VotesCast :: int
  QuorumRequired :: int
  ApprovalRate :: rat
  TurnoutRate :: rat
  QuorumAchieved :: bool
  VotingComplete :: bool
  InMempool :: bool
  VotingStartTime :: "int option"
  VotingEndTime :: "int option"

text \<open>
  The failures of the tally. \<open>Panic\<close> stands for a run-time panic of the process; the
  other two are the errors the source returns.
\<close>

datatype failure = Panic | ClientNotAvailable | CurrentHeightFailed

text \<open>
  \<open>calculateTSpendVotes\<close>. \<open>expiry\<close> is a \<open>uint32\<close>. The error that
  \<open>countTSpendVotesInRange\<close> returns is always \<open>nil\<close>, so the branch that resets the
  counts is never taken. \<open>int(float64(votingEndBlock-votingStartBlock) * 5)\<close> is the
  product itself for heights of this size.
\<close>

definition calculateTSpendVotes ::
    "(string \<Rightarrow> string \<Rightarrow> bool) \<Rightarrow> ledger \<Rightarrow> string \<Rightarrow> int \<Rightarrow> 32 word \<Rightarrow> bool \<Rightarrow>
     failure + TSpendVotingInfo" where
  "calculateTSpendVotes uf L txHash blockHeight expiry inMempool =
     (if \<not> clientAvailable L then Inl ClientNotAvailable
      else
        (case GetBlockCount L of
           None \<Rightarrow> Inl CurrentHeightFailed
         | Some currentHeight \<Rightarrow>
             let votingStartBlock =
                   (if inMempool then
                      (if currentHeight - 2880 < 0 then 0 else currentHeight - 2880)
                    else
                      (if blockHeight - 2880 < TreasuryActivationHeight
                       then TreasuryActivationHeight else blockHeight - 2880));
                 votingEndBlock = (if inMempool then uint expiry else blockHeight);
                 votingComplete = (\<not> inMempool)
             in
               (case countTSpendVotesInRange uf L txHash votingStartBlock votingEndBlock of
                  None \<Rightarrow> Inl Panic
                | Some (yesVotes, noVotes) \<Rightarrow>
                    let votesCast = yesVotes + noVotes;
                        approvalRate = (if votesCast > 0
                                        then of_int yesVotes / of_int votesCast * 100 else 0);
                        eligibleVotes = (votingEndBlock - votingStartBlock) * 5;
                        turnoutRate = (if eligibleVotes > 0
                                       then of_int votesCast / of_int eligibleVotes * 100 else 0);
                        quorumRequired = go_div eligibleVotes 5;
                        quorumAchieved = (votesCast \<ge> quorumRequired);
                        times = getBlockTimestamps L votingStartBlock votingEndBlock
                    in Inr \<lparr> VotingStartBlock = votingStartBlock,
                             VotingEndBlock = votingEndBlock,
                             YesVotes = yesVotes,
                             NoVotes = noVotes,
                             EligibleVotes = eligibleVotes,
                             VotesCast = votesCast,
                             QuorumRequired = quorumRequired,
                             ApprovalRate = approvalRate,
                             TurnoutRate = turnoutRate,
                             QuorumAchieved = quorumAchieved,
                             VotingComplete = votingComplete,
                             InMempool = inMempool,
                             VotingStartTime = fst times,
                             VotingEndTime = snd times \<rparr>)))"

section \<open>The tally engine: shared state, calls and background jobs\<close>

text \<open>
  The three package-level maps, each behind its own mutex. \<open>parsingJobs\<close> is a
  \<open>map[string]bool\<close>: reading a key that is absent gives \<open>false\<close>.
  \<open>VoteParsingProgress\<close> is the progress record of one job; its counts are named
  \<open>YesVotesSoFar\<close> and \<open>NoVotesSoFar\<close> here, and its wall-clock estimate and its
  display message are left out.
\<close>

record VoteParsingProgress =
  IsParsing :: bool
  Progress :: rat
  CurrentBlock :: int
  TotalBlocks :: int
  YesVotesSoFar :: int
  NoVotesSoFar :: int

record engine =
  votingCache :: "string \<rightharpoonup> TSpendVotingInfo"
  voteParsingProgress :: "string \<rightharpoonup> VoteParsingProgress"
  parsingJobs :: "string \<rightharpoonup> bool"

definition emptyEngine :: engine where
  "emptyEngine = \<lparr> votingCache = Map.empty, voteParsingProgress = Map.empty,
                    parsingJobs = Map.empty \<rparr>"

definition jobRunning :: "engine \<Rightarrow> string \<Rightarrow> bool" where
  "jobRunning e txHash = (case parsingJobs e txHash of Some b \<Rightarrow> b | None \<Rightarrow> False)"

text \<open>
  A call of \<open>GetTSpendVotingInfo\<close> touches the shared maps in separate critical
  sections: the cache is read under \<open>votingCacheMutex\<close>, then \<open>parsingJobs\<close> is read
  under \<open>jobsMutex.RLock\<close>, then the progress map is read under \<open>progressMutex\<close>, and
  the job is registered under a second acquisition, \<open>jobsMutex.Lock\<close>. Between two
  sections other goroutines run. The model therefore lets a call advance one critical
  section at a time; \<open>call_pc\<close> says which one comes next. Everything a call does
  between two sections is local and belongs to the step before it.
\<close>

datatype call_pc =
    AtCacheCheck
  | AtJobsCheck
  | AtProgressRead
  | AtLaunch
  | AtSync
  | Returned "failure + TSpendVotingInfo"

record call =
  callTxHash :: string
  callBlockHeight :: int
  callExpiry :: "32 word"
  callInMempool :: bool
  callPc :: call_pc

text \<open>
  A background job, \<open>calculateTSpendVotesAsync\<close>, with its local variables (under the
  prefix \<open>job_\<close>). Its critical sections are: the first progress record, one progress update inside the block
  loop, the cache write, the final progress record, and the deferred removal of the job
  marker.
\<close>

datatype job_pc = JobStart | JobScan | JobCache | JobMarkDone | JobCleanup | JobExit

record job =
  jobTxHash :: string
  jobBlockHeight :: int
  jobPc :: job_pc
  job_votingStartBlock :: int
  job_votingEndBlock :: int
  job_totalBlocks :: int
  job_height :: int
  job_yesVotes :: int
  job_noVotes :: int

definition newJob :: "string \<Rightarrow> int \<Rightarrow> job" where
  "newJob txHash blockHeight =
     \<lparr> jobTxHash = txHash, jobBlockHeight = blockHeight, jobPc = JobStart,
       job_votingStartBlock = 0, job_votingEndBlock = 0, job_totalBlocks = 0, job_height = 0,
       job_yesVotes = 0, job_noVotes = 0 \<rparr>"

text \<open>
  What a call returns while a job is running and has published progress. The start block
  is computed in \<open>float64\<close> and truncated; the model computes it in rationals (see the
  remark on \<open>float64\<close> above), so it can differ from the code's by one block where the
  code's rounding crosses an integer.
\<close>

definition progressSnapshot :: "VoteParsingProgress \<Rightarrow> int \<Rightarrow> bool \<Rightarrow> TSpendVotingInfo" where
  "progressSnapshot progress blockHeight inMempool =
     \<lparr> VotingStartBlock =
         CurrentBlock progress -
           truncate_rat (of_int (CurrentBlock progress - blockHeight + 2880) *
                         (Progress progress / 100)),
       VotingEndBlock = blockHeight,
       YesVotes = YesVotesSoFar progress,
       NoVotes = NoVotesSoFar progress,
       EligibleVotes = 0,
       VotesCast = YesVotesSoFar progress + NoVotesSoFar progress,
       QuorumRequired = 0,
       ApprovalRate = 0,
       TurnoutRate = 0,
       QuorumAchieved = False,
       VotingComplete = (\<not> IsParsing progress),
       InMempool = inMempool,
       VotingStartTime = None,
       VotingEndTime = None \<rparr>"

text \<open>What a call returns right after it has launched a job.\<close>

definition initialEmptyState :: "int \<Rightarrow> bool \<Rightarrow> TSpendVotingInfo" where
  "initialEmptyState blockHeight inMempool =
     \<lparr> VotingStartBlock = blockHeight - 2880,
       VotingEndBlock = blockHeight,
       YesVotes = 0,
       NoVotes = 0,
       EligibleVotes = 0,
       VotesCast = 0,
       QuorumRequired = 0,
       ApprovalRate = 0,
       TurnoutRate = 0,
       QuorumAchieved = False,
       VotingComplete = False,
       InMempool = inMempool,
       VotingStartTime = None,
       VotingEndTime = None \<rparr>"

text \<open>
  One step of a call of \<open>GetTSpendVotingInfo\<close>: the new local state, the new shared
  state, and the job it launches, if any.
\<close>

definition GetTSpendVotingInfo_step ::
    "(string \<Rightarrow> string \<Rightarrow> bool) \<Rightarrow> ledger \<Rightarrow> call \<Rightarrow> engine \<Rightarrow> call \<times> engine \<times> job option" where
  "GetTSpendVotingInfo_step uf L c e =
     (case callPc c of
        AtCacheCheck \<Rightarrow>
          if \<not> callInMempool c then
            (case votingCache e (callTxHash c) of
               Some cached \<Rightarrow> (c\<lparr>callPc := Returned (Inr cached)\<rparr>, e, None)
             | None \<Rightarrow> (c\<lparr>callPc := AtJobsCheck\<rparr>, e, None))
          else (c\<lparr>callPc := AtJobsCheck\<rparr>, e, None)
      | AtJobsCheck \<Rightarrow>
          let isJobRunning = jobRunning e (callTxHash c) in
          if isJobRunning then (c\<lparr>callPc := AtProgressRead\<rparr>, e, None)
          else if \<not> callInMempool c \<and> \<not> isJobRunning then (c\<lparr>callPc := AtLaunch\<rparr>, e, None)
          else (c\<lparr>callPc := AtSync\<rparr>, e, None)
      | AtProgressRead \<Rightarrow>
          (case voteParsingProgress e (callTxHash c) of
             Some progress \<Rightarrow>
               (c\<lparr>callPc := Returned (Inr (progressSnapshot progress (callBlockHeight c)
                                             (callInMempool c)))\<rparr>, e, None)
           | None \<Rightarrow> (c\<lparr>callPc := AtSync\<rparr>, e, None))
      | AtLaunch \<Rightarrow>
          (c\<lparr>callPc := Returned (Inr (initialEmptyState (callBlockHeight c) (callInMempool c)))\<rparr>,
           e\<lparr>parsingJobs := (parsingJobs e)(callTxHash c \<mapsto> True)\<rparr>,
           Some (newJob (callTxHash c) (callBlockHeight c)))
      | AtSync \<Rightarrow>
          (c\<lparr>callPc := Returned (calculateTSpendVotes uf L (callTxHash c) (callBlockHeight c)
                                    (callExpiry c) (callInMempool c))\<rparr>, e, None)
      | Returned r \<Rightarrow> (c, e, None))"

text \<open>
  The final statistics of a job, computed after its loop from its local variables, and
  the final result it caches. \<open>int(float64(totalBlocks) * 5)\<close> is the product itself.
\<close>

definition finalResult :: "ledger \<Rightarrow> job \<Rightarrow> TSpendVotingInfo" where
  "finalResult L j =
     (let votesCast = job_yesVotes j + job_noVotes j;
          approvalRate = (if votesCast > 0
                          then of_int (job_yesVotes j) / of_int votesCast * 100 else 0);
          eligibleVotes = job_totalBlocks j * 5;
          turnoutRate = (if eligibleVotes > 0
                         then of_int votesCast / of_int eligibleVotes * 100 else 0);
          quorumRequired = go_div eligibleVotes 5;
          quorumAchieved = (votesCast \<ge> quorumRequired);
          times = getBlockTimestamps L (job_votingStartBlock j) (job_votingEndBlock j)
      in \<lparr> VotingStartBlock = job_votingStartBlock j,
           VotingEndBlock = job_votingEndBlock j,
           YesVotes = job_yesVotes j,
           NoVotes = job_noVotes j,
           EligibleVotes = eligibleVotes,
           VotesCast = votesCast,
           QuorumRequired = quorumRequired,
           ApprovalRate = approvalRate,
           TurnoutRate = turnoutRate,
           QuorumAchieved = quorumAchieved,
           VotingComplete = True,
           InMempool = False,
           VotingStartTime = fst times,
           VotingEndTime = snd times \<rparr>)"

text \<open>
  One step of \<open>calculateTSpendVotesAsync\<close>: the new local state and the new shared
  state, or \<open>None\<close> if the vote decoder panicked. \<open>JobStart\<close> runs from the entry of
  the function to the start of the loop, \<open>JobScan\<close> is one iteration of the loop (a
  block whose fetch fails is left with \<open>continue\<close>, before the progress update),
  \<open>JobCache\<close> computes the final result and caches it, \<open>JobMarkDone\<close> writes the last
  progress record, and \<open>JobCleanup\<close> is the deferred function.
\<close>

definition calculateTSpendVotesAsync_step ::
    "(string \<Rightarrow> string \<Rightarrow> bool) \<Rightarrow> ledger \<Rightarrow> job \<Rightarrow> engine \<Rightarrow> (job \<times> engine) option" where
  "calculateTSpendVotesAsync_step uf L j e =
     (case jobPc j of
        JobStart \<Rightarrow>
          if \<not> clientAvailable L then Some (j\<lparr>jobPc := JobCleanup\<rparr>, e)
          else
            let start0 = (if jobBlockHeight j - 2880 < TreasuryActivationHeight
                          then TreasuryActivationHeight else jobBlockHeight j - 2880);
                end0 = jobBlockHeight j;
                total = end0 - start0 + 1;
                e' = e\<lparr>voteParsingProgress := (voteParsingProgress e)(jobTxHash j \<mapsto>
                        \<lparr> IsParsing = True, Progress = 0, CurrentBlock = start0,
                          TotalBlocks = total, YesVotesSoFar = 0, NoVotesSoFar = 0 \<rparr>)\<rparr>;
                maxScanRange = 3000;
                start1 = (if end0 - start0 > maxScanRange then end0 - maxScanRange else start0)
            in Some (j\<lparr>jobPc := (if start1 \<le> end0 then JobScan else JobCache),
                      job_votingStartBlock := start1, job_votingEndBlock := end0, job_totalBlocks := total,
                      job_height := start1, job_yesVotes := 0, job_noVotes := 0\<rparr>, e')
      | JobScan \<Rightarrow>
          let next = (if job_height j + 1 \<le> job_votingEndBlock j then JobScan else JobCache) in
          (case fetchStakeTxs L (job_height j) of
             None \<Rightarrow> Some (j\<lparr>jobPc := next, job_height := job_height j + 1\<rparr>, e)
           | Some stx \<Rightarrow>
               (case countVotes_stx uf L (jobTxHash j) stx (job_yesVotes j, job_noVotes j) of
                  None \<Rightarrow> None
                | Some (yes, no) \<Rightarrow>
                    let e' =
                          (if job_height j mod 50 = 0 \<or> job_height j = job_votingEndBlock j then
                             let blocksProcessed = job_height j - job_votingStartBlock j + 1;
                                 progress = of_int blocksProcessed / of_int (job_totalBlocks j) * 100
                             in e\<lparr>voteParsingProgress := (voteParsingProgress e)(jobTxHash j \<mapsto>
                                   \<lparr> IsParsing = (job_height j < job_votingEndBlock j),
                                     Progress = progress,
                                     CurrentBlock = job_height j, TotalBlocks = job_totalBlocks j,
                                     YesVotesSoFar = yes, NoVotesSoFar = no \<rparr>)\<rparr>
                           else e)
                    in Some (j\<lparr>jobPc := next, job_height := job_height j + 1,
                              job_yesVotes := yes, job_noVotes := no\<rparr>, e')))
      | JobCache \<Rightarrow>
          Some (j\<lparr>jobPc := JobMarkDone\<rparr>,
                e\<lparr>votingCache := (votingCache e)(jobTxHash j \<mapsto> finalResult L j)\<rparr>)
      | JobMarkDone \<Rightarrow>
          Some (j\<lparr>jobPc := JobCleanup\<rparr>,
                e\<lparr>voteParsingProgress := (voteParsingProgress e)(jobTxHash j \<mapsto>
                    \<lparr> IsParsing = False, Progress = 100, CurrentBlock = job_votingEndBlock j,
                      TotalBlocks = job_totalBlocks j, YesVotesSoFar = job_yesVotes j,
                      NoVotesSoFar = job_noVotes j \<rparr>)\<rparr>)
      | JobCleanup \<Rightarrow>
          Some (j\<lparr>jobPc := JobExit\<rparr>, e\<lparr>parsingJobs := (parsingJobs e)(jobTxHash j := None)\<rparr>)
      | JobExit \<Rightarrow> Some (j, e))"

text \<open>
  The running program: the shared maps, the calls in flight and the jobs launched so
  far. An event is the arrival of a call, or one step of a call or of a job, chosen by
  the scheduler; each step sees the ledger as it is at that moment. A step of a goroutine
  that does not exist, or that has finished, changes nothing.
\<close>

record config =
  shared :: engine
  calls :: "call list"
  jobs :: "job list"
  panicked :: bool

datatype event =
    Invoke string int "32 word" bool
  | CallStep nat
  | JobStep nat

definition initialConfig :: config where
  "initialConfig = \<lparr> shared = emptyEngine, calls = [], jobs = [], panicked = False \<rparr>"

definition step :: "(string \<Rightarrow> string \<Rightarrow> bool) \<Rightarrow> ledger \<Rightarrow> event \<Rightarrow> config \<Rightarrow> config" where
  "step uf L ev cfg =
     (if panicked cfg then cfg
      else
        (case ev of
           Invoke txHash blockHeight expiry inMempool \<Rightarrow>
             cfg\<lparr>calls := calls cfg @
                    [\<lparr> callTxHash = txHash, callBlockHeight = blockHeight, callExpiry = expiry,
                       callInMempool = inMempool, callPc = AtCacheCheck \<rparr>]\<rparr>
         | CallStep i \<Rightarrow>
             if i < length (calls cfg) then
               (case GetTSpendVotingInfo_step uf L (calls cfg ! i) (shared cfg) of
                  (c', e', launched) \<Rightarrow>
                    cfg\<lparr>shared := e', calls := (calls cfg)[i := c'],
                        jobs := jobs cfg @ (case launched of None \<Rightarrow> [] | Some j \<Rightarrow> [j])\<rparr>)
             else cfg
         | JobStep i \<Rightarrow>
             if i < length (jobs cfg) then
               (case calculateTSpendVotesAsync_step uf L (jobs cfg ! i) (shared cfg) of
                  None \<Rightarrow> cfg\<lparr>panicked := True\<rparr>
                | Some (j', e') \<Rightarrow> cfg\<lparr>shared := e', jobs := (jobs cfg)[i := j']\<rparr>)
             else cfg))"

fun run ::
    "(string \<Rightarrow> string \<Rightarrow> bool) \<Rightarrow> (ledger \<times> event) list \<Rightarrow> config \<Rightarrow> config" where
  "run uf [] cfg = cfg"
| "run uf ((L, ev) # evs) cfg = run uf evs (step uf L ev cfg)"

definition activeJobs :: "config \<Rightarrow> string \<Rightarrow> job list" where
  "activeJobs cfg txHash = filter (\<lambda>j. jobTxHash j = txHash \<and> jobPc j \<noteq> JobExit) (jobs cfg)"

section \<open>Spend records\<close>

text \<open>
  \<open>types.TSpend\<close> and \<open>types.TSpendHistory\<close>, with the fields the two extraction
  functions fill. The fields of the history record carry the prefix \<open>Hist\<close> where the
  source uses the same name in both structs; the detection time of a \<open>TSpend\<close> (the
  wall clock) is left out. Amounts are \<open>float64\<close> sums; the model adds them without
  rounding. The expiry height is \<open>int64(expiry)\<close>, exact for an expiry inside the 64-bit
  range, and the subtraction that gives the remaining blocks wraps around.
\<close>

record TSpend =
  TxHash :: string
  Amount :: rat
  Payee :: string
  ExpiryHeight :: int
  CurrentHeight :: int
  BlocksRemaining :: int
  Status :: string

record TSpendHistory =
  HistTxHash :: string
  HistAmount :: rat
  HistPayee :: string
  BlockHeight :: int
  BlockHash :: string
  Timestamp :: int
  VoteResult :: string

text \<open>
  The loop over \<open>vout\<close> that both extraction functions run: it adds up the \<open>value\<close>
  fields and sets the payee at every output that has a first address of type string. A
  failed one-result lookup (\<open>x, _ := ...\<close>) leaves the zero value: the empty map, 0.
\<close>

fun sumOutputs :: "json list \<Rightarrow> rat \<times> string \<Rightarrow> rat \<times> string" where
  "sumOutputs [] (amount, payee) = (amount, payee)"
| "sumOutputs (v # vout) (amount, payee) =
     (let voutMap = (case asObject (Some v) of Some m \<Rightarrow> m | None \<Rightarrow> []);
          outValue = (case asFloat (map_of voutMap ''value'') of Some x \<Rightarrow> x | None \<Rightarrow> 0);
          payee' =
            (case asObject (map_of voutMap ''scriptPubKey'') of
               None \<Rightarrow> payee
             | Some scriptPubKey \<Rightarrow>
                 (case asArray (map_of scriptPubKey ''addresses'') of
                    None \<Rightarrow> payee
                  | Some addresses \<Rightarrow>
                      if length addresses > 0 then
                        (case asString (Some (addresses ! 0)) of
                           Some addr \<Rightarrow> addr
                         | None \<Rightarrow> payee)
                      else payee))
      in sumOutputs vout (amount + outValue, payee'))"

definition extractTSpendInfo :: "jobject \<Rightarrow> int \<Rightarrow> TSpend" where
  "extractTSpendInfo tx currentHeight =
     (let txid = (case asString (map_of tx ''txid'') of Some s \<Rightarrow> s | None \<Rightarrow> []);
          expiry = (case asFloat (map_of tx ''expiry'') of Some x \<Rightarrow> x | None \<Rightarrow> 0);
          vout = (case asArray (map_of tx ''vout'') of Some xs \<Rightarrow> xs | None \<Rightarrow> []);
          totals = sumOutputs vout (0, []);
          expiryHeight = truncate_rat expiry;
          blocksRemaining = wrap64 (expiryHeight - currentHeight)
      in \<lparr> TxHash = txid, Amount = fst totals, Payee = snd totals,
           ExpiryHeight = expiryHeight, CurrentHeight = currentHeight,
           BlocksRemaining = blocksRemaining, Status = ''voting'' \<rparr>)"

definition extractTSpendHistory :: "jobject \<Rightarrow> int \<Rightarrow> string \<Rightarrow> int \<Rightarrow> TSpendHistory" where
  "extractTSpendHistory tx blockHeight blockHash blockTime =
     (let txid = (case asString (map_of tx ''txid'') of Some s \<Rightarrow> s | None \<Rightarrow> []);
          vout = (case asArray (map_of tx ''vout'') of Some xs \<Rightarrow> xs | None \<Rightarrow> []);
          totals = sumOutputs vout (0, [])
      in \<lparr> HistTxHash = txid, HistAmount = fst totals, HistPayee = snd totals,
           BlockHeight = blockHeight, BlockHash = blockHash, Timestamp = blockTime,
           VoteResult = ''approved'' \<rparr>)"

section \<open>The mempool probe\<close>

text \<open>
  A Go slice is \<open>nil\<close> or a list: \<open>None\<close> is the \<open>nil\<close> slice, which JSON encodes as
  \<open>null\<close>, and \<open>Some []\<close> the empty slice \<open>[]T{}\<close>. \<open>append\<close> to either gives a list.
\<close>

definition go_append :: "'a list option \<Rightarrow> 'a \<Rightarrow> 'a list option" where
  "go_append s x = Some ((case s of None \<Rightarrow> [] | Some xs \<Rightarrow> xs) @ [x])"

datatype probe_error = DcrdClientNotAvailable | FailedToGetMempool | FailedToUnmarshalMempool

text \<open>
  \<open>scanMempoolForTSpends\<close>: the loop over the keys of the mempool map, in the order the
  \<open>range\<close> statement happens to visit them, and the function. It returns the pair
  \<open>(tspends, err)\<close>. \<open>extractTSpendInfo\<close> never returns \<open>nil\<close>.
\<close>

fun scanMempool_loop :: "ledger \<Rightarrow> int \<Rightarrow> string list \<Rightarrow> TSpend list option \<Rightarrow> TSpend list option" where
  "scanMempool_loop L currentHeight [] tspends = tspends"
| "scanMempool_loop L currentHeight (txHash # rest) tspends =
     (case getTransaction L txHash of
        None \<Rightarrow> scanMempool_loop L currentHeight rest tspends
      | Some tx \<Rightarrow>
          if isTreasurySpend tx then
            scanMempool_loop L currentHeight rest
              (go_append tspends (extractTSpendInfo tx currentHeight))
          else scanMempool_loop L currentHeight rest tspends)"

definition scanMempoolForTSpends :: "ledger \<Rightarrow> TSpend list option \<times> probe_error option" where
  "scanMempoolForTSpends L =
     (if \<not> clientAvailable L then (None, Some DcrdClientNotAvailable)
      else
        (case getrawmempool L of
           RequestFailed \<Rightarrow> (None, Some FailedToGetMempool)
         | UnmarshalFailed \<Rightarrow> (None, Some FailedToUnmarshalMempool)
         | MempoolKeys mempoolMap \<Rightarrow>
             let currentHeight = (case GetBlockCount L of Some h \<Rightarrow> h | None \<Rightarrow> 0)
             in (scanMempool_loop L currentHeight mempoolMap None, None)))"

definition GetMempoolTSpends :: "ledger \<Rightarrow> TSpend list option \<times> probe_error option" where
  "GetMempoolTSpends L = scanMempoolForTSpends L"

text \<open>
  \<open>FetchTreasuryInfo\<close>; the time of the last update is left out. Its error result is
  always \<open>nil\<close>.
\<close>

record TreasuryInfo =
  Balance :: rat
  BalanceUSD :: rat
  TotalAdded :: rat
  TotalSpent :: rat
  ActiveTSpends :: "TSpend list option"
  RecentTSpends :: "TSpendHistory list option"

definition getTreasuryBalance :: "ledger \<Rightarrow> rat option" where
  "getTreasuryBalance L =
     (if \<not> clientAvailable L then None
      else
        (case GetTreasuryBalance L of
           None \<Rightarrow> None
         | Some atoms \<Rightarrow> Some (of_int atoms / 100000000)))"

definition FetchTreasuryInfo :: "ledger \<Rightarrow> TreasuryInfo" where
  "FetchTreasuryInfo L =
     (let balance = (case getTreasuryBalance L of Some b \<Rightarrow> b | None \<Rightarrow> 0);
          probe = scanMempoolForTSpends L;
          activeTSpends = (if snd probe \<noteq> None then Some [] else fst probe);
          activeTSpends' = (if activeTSpends = None then Some [] else activeTSpends)
      in \<lparr> Balance = balance, BalanceUSD = 0, TotalAdded = 0, TotalSpent = 0,
           ActiveTSpends = activeTSpends', RecentTSpends = Some [] \<rparr>)"

text \<open>
  The ways the probe can fail, as the specification names them: totally, when the data
  source is unavailable or the mempool listing cannot be obtained; partially, when the
  listing is obtained and some transaction of it cannot be fetched.
\<close>

definition probe_fails_totally :: "ledger \<Rightarrow> bool" where
  "probe_fails_totally L =
     (\<not> clientAvailable L \<or> getrawmempool L = RequestFailed \<or> getrawmempool L = UnmarshalFailed)"

definition mempoolKeys :: "ledger \<Rightarrow> string list" where
  "mempoolKeys L = (case getrawmempool L of MempoolKeys ks \<Rightarrow> ks | _ \<Rightarrow> [])"

definition probe_fails_partially :: "ledger \<Rightarrow> bool" where
  "probe_fails_partially L =
     (\<not> probe_fails_totally L \<and> list_ex (\<lambda>k. getTransaction L k = None) (mempoolKeys L))"

text \<open>The spends among the mempool transactions that can be fetched.\<close>

definition spendsFound :: "ledger \<Rightarrow> TSpend list" where
  "spendsFound L =
     map (\<lambda>tx. extractTSpendInfo tx (case GetBlockCount L of Some h \<Rightarrow> h | None \<Rightarrow> 0))
       (filter isTreasurySpend (List.map_filter (getTransaction L) (mempoolKeys L)))"

section \<open>The historical scanner\<close>

text \<open>
  The scanner's package-level variables, guarded by \<open>scanMutex\<close>. The two heights are
  \<open>int64\<close>; they are integers here, and \<open>wrap64\<close> writes out the wrap-around of the
  one subtraction whose operands the progress query takes from any state.
\<close>

record scan_state =
  isScanRunning :: bool
  currentScanHeight :: int
  totalScanHeight :: int
  tspendFoundCount :: int
  scanResults :: "TSpendHistory list"
  newTSpendBuffer :: "TSpendHistory list"

definition initialScanState :: scan_state where
  "initialScanState =
     \<lparr> isScanRunning = False, currentScanHeight = 0, totalScanHeight = 0,
       tspendFoundCount = 0, scanResults = [], newTSpendBuffer = [] \<rparr>"

text \<open>
  \<open>TriggerHistoricalScan\<close>: the error it returns, the state when it releases the mutex,
  and the start height it hands to the background goroutine, if it launches one.
\<close>

definition TriggerHistoricalScan ::
    "int \<Rightarrow> scan_state \<Rightarrow> string option \<times> scan_state \<times> int option" where
  "TriggerHistoricalScan startHeight s =
     (if isScanRunning s then (Some ''scan already in progress'', s, None)
      else
        let startHeight' = (if startHeight < TreasuryActivationHeight
                            then TreasuryActivationHeight else startHeight)
        in (None,
            s\<lparr>isScanRunning := True, currentScanHeight := startHeight',
              tspendFoundCount := 0, scanResults := [], newTSpendBuffer := []\<rparr>,
            Some startHeight'))"

text \<open>
  \<open>scanHistoricalTSpendsBackground\<close>, run without interruption: the fetch of the chain
  tip, the loop over the heights with its inner loop over the transactions of a block,
  and the final reset of the running flag. The function uses \<open>rpc.DcrdClient\<close> without
  testing it for \<open>nil\<close>; with no client its first call dereferences \<open>nil\<close> and the
  goroutine panics, which is the result \<open>None\<close>.
\<close>

fun scanBlockTxs :: "ledger \<Rightarrow> block \<Rightarrow> string list \<Rightarrow> scan_state \<Rightarrow> scan_state" where
  "scanBlockTxs L blk [] s = s"
| "scanBlockTxs L blk (txHash # allTxs) s =
     (case getTransaction L txHash of
        None \<Rightarrow> scanBlockTxs L blk allTxs s
      | Some tx \<Rightarrow>
          if isTreasurySpend tx then
            let history = extractTSpendHistory tx (Height blk) (Hash blk) (Time blk)
            in scanBlockTxs L blk allTxs
                 (s\<lparr>scanResults := scanResults s @ [history],
                    newTSpendBuffer := newTSpendBuffer s @ [history],
                    tspendFoundCount := tspendFoundCount s + 1\<rparr>)
          else scanBlockTxs L blk allTxs s)"

definition scanHeight :: "ledger \<Rightarrow> int \<Rightarrow> scan_state \<Rightarrow> scan_state" where
  "scanHeight L h s =
     (let s1 = s\<lparr>currentScanHeight := h\<rparr> in
      case GetBlockHash L h of
        None \<Rightarrow> s1
      | Some blockHash \<Rightarrow>
          (case getblock L blockHash of
             None \<Rightarrow> s1
           | Some blk \<Rightarrow> scanBlockTxs L blk (Tx blk @ STx blk) s1))"

function scanHeights :: "ledger \<Rightarrow> int \<Rightarrow> int \<Rightarrow> scan_state \<Rightarrow> scan_state" where
  "scanHeights L h currentHeight s =
     (if h \<le> currentHeight then scanHeights L (h + 1) currentHeight (scanHeight L h s) else s)"
  by pat_completeness auto
termination
  by (relation "measure (\<lambda>(L, h, currentHeight, s). nat (currentHeight + 1 - h))") auto

declare scanHeights.simps [simp del]

definition scanHistoricalTSpendsBackground ::
    "ledger \<Rightarrow> int \<Rightarrow> scan_state \<Rightarrow> scan_state option" where
  "scanHistoricalTSpendsBackground L startHeight s =
     (if \<not> clientAvailable L then None
      else
        (case GetBlockCount L of
           None \<Rightarrow> Some (s\<lparr>isScanRunning := False\<rparr>)
         | Some currentHeight \<Rightarrow>
             Some ((scanHeights L startHeight currentHeight (s\<lparr>totalScanHeight := currentHeight\<rparr>))
                     \<lparr>isScanRunning := False\<rparr>)))"

text \<open>
  \<open>GetScanProgress\<close>: the progress record it returns and the state it leaves (the
  buffer of new finds is emptied). \<open>%d\<close> prints a count in decimal.
\<close>

fun decimal :: "nat \<Rightarrow> string" where
  "decimal n =
     (if n < 10 then [char_of (48 + n)]
      else decimal (n div 10) @ [char_of (48 + n mod 10)])"

declare decimal.simps [simp del]

record TSpendScanProgress =
  IsScanning :: bool
  ScanCurrentHeight :: int
  TotalHeight :: int
  ScanPercent :: rat
  TSpendFound :: int
  NewTSpends :: "TSpendHistory list"
  Message :: string

definition GetScanProgress :: "scan_state \<Rightarrow> TSpendScanProgress \<times> scan_state" where
  "GetScanProgress s =
     (let progress =
            (if totalScanHeight s > TreasuryActivationHeight then
               of_int (wrap64 (currentScanHeight s - TreasuryActivationHeight)) /
               of_int (wrap64 (totalScanHeight s - TreasuryActivationHeight)) * 100
             else 0);
          message =
            (if \<not> isScanRunning s then
               (if tspendFoundCount s > 0 then
                  ''Scan complete. Found '' @ decimal (nat (tspendFoundCount s)) @
                  '' treasury spends''
                else ''No scan in progress'')
             else ''Scanning blockchain for treasury spends...'');
          newTSpends = newTSpendBuffer s
      in (\<lparr> IsScanning = isScanRunning s,
            ScanCurrentHeight = currentScanHeight s,
            TotalHeight = totalScanHeight s,
            ScanPercent = progress,
            TSpendFound = tspendFoundCount s,
            NewTSpends = newTSpends,
            Message = message \<rparr>,
          s\<lparr>newTSpendBuffer := []\<rparr>))"

text \<open>
  The percentage as the specification words it: the quotient clamped to the interval from
  0 to 100.
\<close>

definition clampedPercent :: "int \<Rightarrow> int \<Rightarrow> rat" where
  "clampedPercent current tip =
     max 0 (min 100 (of_int (current - TreasuryActivationHeight) /
                     of_int (tip - TreasuryActivationHeight) * 100))"

section \<open>A background job run to completion\<close>

text \<open>
  \<open>runJob\<close> runs the steps of one background job against one ledger until the job has
  exited, with no other goroutine in between. It terminates: every step either moves the
  job to a later stage or, inside the block loop, brings the loop variable closer to the
  end of the window. The result is \<open>None\<close> only if the vote decoder panicked.
\<close>

fun job_rank :: "job_pc \<Rightarrow> nat" where
  "job_rank JobStart = 5"
| "job_rank JobScan = 4"
| "job_rank JobCache = 3"
| "job_rank JobMarkDone = 2"
| "job_rank JobCleanup = 1"
| "job_rank JobExit = 0"

function runJob ::
    "(string \<Rightarrow> string \<Rightarrow> bool) \<Rightarrow> ledger \<Rightarrow> job \<Rightarrow> engine \<Rightarrow> (job \<times> engine) option" where
  "runJob uf L j e =
     (if jobPc j = JobExit then Some (j, e)
      else
        (case calculateTSpendVotesAsync_step uf L j e of
           None \<Rightarrow> None
         | Some (j', e') \<Rightarrow> runJob uf L j' e'))"
  by pat_completeness auto
termination
  by (relation "measures [\<lambda>(uf, L, j, e). job_rank (jobPc j),
                          \<lambda>(uf, L, j, e). nat (job_votingEndBlock j + 1 - job_height j)]")
     (auto simp: calculateTSpendVotesAsync_step_def Let_def
           split: job_pc.splits option.splits if_splits prod.splits)
declare runJob.simps [simp del]

section \<open>Statements of the specification\<close>

text \<open>
  The definitions of this section are not taken from the code. They word what the
  specification says, so that the code can be compared with it.

  \<open>gen_output v\<close>: the output \<open>v\<close> has a locking-script type that contains
  \<open>treasurygen\<close>.
\<close>

definition gen_output :: "json \<Rightarrow> bool" where
  "gen_output v =
     (\<exists>voutMap scriptPubKey scriptType. v = JObj voutMap \<and>
        map_of voutMap ''scriptPubKey'' = Some (JObj scriptPubKey) \<and>
        map_of scriptPubKey ''type'' = Some (JStr scriptType) \<and>
        Contains (ToLower scriptType) ''treasurygen'')"

text \<open>
  The final statistics as the specification states them, for a tally \<open>r\<close> over a voting
  window of \<open>windowBlocks\<close> blocks: the approval rate is \<open>yes / (yes + no) * 100\<close> and 0
  when no vote was cast, the eligible votes are five per block of the window, the quorum
  is a fifth of the eligible votes, and it is achieved when the votes cast reach it.
\<close>

definition tally_stats :: "int \<Rightarrow> TSpendVotingInfo \<Rightarrow> bool" where
  "tally_stats windowBlocks r =
     (VotesCast r = YesVotes r + NoVotes r \<and>
      ApprovalRate r = (if VotesCast r > 0
                        then of_int (YesVotes r) / of_int (YesVotes r + NoVotes r) * 100 else 0) \<and>
      EligibleVotes r = windowBlocks * 5 \<and>
      QuorumRequired r = go_div (EligibleVotes r) 5 \<and>
      QuorumAchieved r = (VotesCast r \<ge> QuorumRequired r))"

text \<open>
  \<open>job_done j res\<close>: the run \<open>res\<close> of the job \<open>j\<close> has ended, the job marker of its
  hash is removed, and the cache holds for its hash a tally over the job's window with the
  statistics above for \<open>totalBlocks\<close> blocks.
\<close>

definition job_done :: "job \<Rightarrow> (job \<times> engine) option \<Rightarrow> bool" where
  "job_done j res =
     (\<exists>j' e' r. res = Some (j', e') \<and> votingCache e' (jobTxHash j) = Some r \<and>
        tally_stats (job_totalBlocks j) r \<and>
        VotingStartBlock r = job_votingStartBlock j \<and>
        VotingEndBlock r = job_votingEndBlock j \<and>
        parsingJobs e' (jobTxHash j) = None)"

section \<open>Example data\<close>

text \<open>
  Concrete inputs on which the theorems below are evaluated.

  \<open>noUnicodeFold\<close> is an instance of the Unicode continuation of \<open>EqualFold\<close>; the
  examples compare ASCII strings only and never reach it.
\<close>

definition noUnicodeFold :: "string \<Rightarrow> string \<Rightarrow> bool" where
  "noUnicodeFold s t = False"

text \<open>
  A 32-byte hash, its hexadecimal writing in display order (in mixed case), and a vote
  payload for it: opcode \<open>6a\<close>, length \<open>24\<close>, prefix \<open>5462\<close>, the hash reversed, and
  the vote byte \<open>fd\<close>, whose low two bits are \<open>01\<close>. \<open>noVoteByte\<close> is the payload
  without its vote byte, \<open>badVoteByte\<close> the payload with two characters that are no
  hexadecimal digits in the place of the vote byte, and \<open>halfVoteByte\<close> the payload with
  one digit and one other character there.
\<close>

definition demoHash :: "8 word list" where
  "demoHash = [0x1a, 0x2b] @ replicate 29 0x00 @ [0xEF]"

definition demoHashHex :: string where
  "demoHashHex = ''1a2b'' @ replicate 58 (CHR ''0'') @ ''eF''"

definition demoPayload :: string where
  "demoPayload = ''6a24'' @ ''5462'' @ ''Ef'' @ replicate 58 (CHR ''0'') @ ''2B1a'' @ ''fd''"




text \<open>
  Transactions: one with the input marker and junk elsewhere; one with the output signal
  (in capitals) and version 3 and an ordinary input; one with the output signal, a
  \<open>vin\<close> field of the wrong type and a version that is a string; a treasury spend as the
  mempool shows it; a vote with two outputs, the second carrying the payload; and a vote
  whose only output carries the payload.
\<close>

definition markerTx :: jobject where
  "markerTx =
     [(''vin'', JArr [JStr ''junk'', JObj [(''treasuryspend'', JNull)]]),
      (''vout'', JStr ''junk''),
      (''version'', JBool True)]"

definition genTx :: jobject where
  "genTx =
     [(''vin'', JArr [JObj [(''txid'', JStr ''aa''), (''vout'', JNum 0)]]),
      (''vout'', JArr [JObj [(''scriptPubKey'', JObj [(''type'', JStr ''TreasuryGen-PubKeyHash'')])]]),
      (''version'', JNum 3)]"

definition plainTx :: jobject where
  "plainTx =
     [(''vin'', JNum 1),
      (''vout'', JArr [JObj [(''scriptPubKey'', JObj [(''type'', JStr ''treasurygen-pubkeyhash'')])]]),
      (''version'', JStr ''3'')]"

definition spendTx :: jobject where
  "spendTx =
     [(''txid'', JStr ''bb''),
      (''version'', JNum 3),
      (''expiry'', JNum 900100),
      (''vin'', JArr [JObj [(''treasuryspend'', JStr ''c1''), (''amountin'', JNum 25)]]),
      (''vout'', JArr [JObj [(''value'', JNum 25),
                            (''scriptPubKey'', JObj [(''type'', JStr ''treasurygen-pubkeyhash''),
                                                     (''addresses'', JArr [JStr ''DsPayee''])])]])]"

definition voteTx :: jobject where
  "voteTx =
     [(''txid'', JStr ''v1''),
      (''vin'', JArr [JObj [(''stakebase'', JStr ''0000'')], JObj [(''txid'', JStr ''t1'')]]),
      (''vout'', JArr [JObj [(''scriptPubKey'', JObj [(''type'', JStr ''stakegen'')])],
                      JObj [(''scriptPubKey'', JObj [(''type'', JStr ''nulldata''),
                                                     (''hex'', JStr demoPayload)])]])]"

definition singleOutputVote :: jobject where
  "singleOutputVote =
     [(''vin'', JArr [JObj [(''stakebase'', JStr ''0000'')]]),
      (''vout'', JArr [JObj [(''scriptPubKey'', JObj [(''type'', JStr ''nulldata''),
                                                     (''hex'', JStr demoPayload)])]])]"

text \<open>
  Ledgers. \<open>tipLedger\<close> is a node that is reachable and reports the chain tip 900000 and
  fails every other request; \<open>downLedger\<close> is no client at all; \<open>partialLedger\<close> lists
  two mempool transactions and can fetch only the second, a treasury spend;
  \<open>votingLedger\<close> serves block 552448, whose one stake transaction is the vote above.
\<close>

definition tipLedger :: ledger where
  "tipLedger =
     \<lparr> clientAvailable = True, GetBlockCount = Some 900000, GetBlockHash = (\<lambda>h. None),
       getblock = (\<lambda>h. None), getrawtransaction = (\<lambda>h. None), getblockheader = (\<lambda>h. None),
       getrawmempool = RequestFailed, GetTreasuryBalance = None \<rparr>"

definition downLedger :: ledger where
  "downLedger = tipLedger\<lparr>clientAvailable := False\<rparr>"

definition partialLedger :: ledger where
  "partialLedger =
     tipLedger\<lparr>getrawmempool := MempoolKeys [''aa'', ''bb''],
               getrawtransaction := (\<lambda>h. if h = ''bb'' then Some spendTx else None)\<rparr>"

definition votingLedger :: ledger where
  "votingLedger =
     tipLedger\<lparr>GetBlockHash := (\<lambda>h. if h = 552448 then Some ''b0'' else None),
               getblock := (\<lambda>h. if h = ''b0''
                                 then Some \<lparr> Hash = ''b0'', Height = 552448, Time = 1620000000,
                                             Tx = [], STx = [''v1''] \<rparr>
                                 else None),
               getrawtransaction := (\<lambda>h. if h = ''v1'' then Some voteTx else None)\<rparr>"

text \<open>
  The state of the scanner after a scan is triggered at height 1000000 on a chain whose
  tip is 900000 and the background scan has run.
\<close>

definition overshootState :: scan_state where
  "overshootState =
     the (scanHistoricalTSpendsBackground tipLedger 1000000
            (fst (snd (TriggerHistoricalScan 1000000 initialScanState))))"

text \<open>
  Schedules of the tally engine. In \<open>raceEvents\<close> two calls for the same confirmed spend
  arrive; both read the cache, both read the job map, and only then both register and
  launch. \<open>firstJobEvents\<close> runs the first job to its end while the node serves the
  block, \<open>secondJobEvents\<close> runs the second job to its end while the node fails to serve
  it. In \<open>fallbackEvents\<close> a second call for a spend at block 560000 arrives after the
  first call has registered its job and before the job has published any progress. The
  remaining definitions name the states these schedules pass through.
\<close>

definition raceEvents :: "(ledger \<times> event) list" where
  "raceEvents =
     map (Pair tipLedger)
       [Invoke demoHashHex 552448 0 False, Invoke demoHashHex 552448 0 False,
        CallStep 0, CallStep 1, CallStep 0, CallStep 1, CallStep 0, CallStep 1]"

definition firstJobEvents :: "(ledger \<times> event) list" where
  "firstJobEvents = map (Pair votingLedger) [JobStep 0, JobStep 0, JobStep 0, JobStep 0, JobStep 0]"

definition secondJobEvents :: "(ledger \<times> event) list" where
  "secondJobEvents = map (Pair tipLedger) [JobStep 1, JobStep 1, JobStep 1, JobStep 1, JobStep 1]"

definition fallbackEvents :: "(ledger \<times> event) list" where
  "fallbackEvents =
     map (Pair tipLedger)
       [Invoke demoHashHex 560000 0 False, CallStep 0, CallStep 0, CallStep 0,
        Invoke demoHashHex 560000 0 False, CallStep 1, CallStep 1, CallStep 1, CallStep 1]"

definition demoCall :: "call_pc \<Rightarrow> call" where
  "demoCall pc = \<lparr> callTxHash = demoHashHex, callBlockHeight = 552448, callExpiry = 0,
                   callInMempool = False, callPc = pc \<rparr>"

definition afterRace :: config where
  "afterRace =
     \<lparr> shared = emptyEngine\<lparr>parsingJobs := [demoHashHex \<mapsto> True]\<rparr>,
       calls = [demoCall (Returned (Inr (initialEmptyState 552448 False))),
                demoCall (Returned (Inr (initialEmptyState 552448 False)))],
       jobs = [newJob demoHashHex 552448, newJob demoHashHex 552448],
       panicked = False \<rparr>"

definition startedJob :: job where
  "startedJob =
     \<lparr> jobTxHash = demoHashHex, jobBlockHeight = 552448, jobPc = JobScan,
       job_votingStartBlock = 552448, job_votingEndBlock = 552448, job_totalBlocks = 1,
       job_height = 552448, job_yesVotes = 0, job_noVotes = 0 \<rparr>"

definition startProgress :: VoteParsingProgress where
  "startProgress =
     \<lparr> IsParsing = True, Progress = 0, CurrentBlock = 552448, TotalBlocks = 1,
       YesVotesSoFar = 0, NoVotesSoFar = 0 \<rparr>"

definition doneProgress :: "int \<Rightarrow> VoteParsingProgress" where
  "doneProgress yes =
     \<lparr> IsParsing = False, Progress = 100, CurrentBlock = 552448, TotalBlocks = 1,
       YesVotesSoFar = yes, NoVotesSoFar = 0 \<rparr>"

definition doneJob :: "int \<Rightarrow> job" where
  "doneJob yes =
     \<lparr> jobTxHash = demoHashHex, jobBlockHeight = 552448, jobPc = JobExit,
       job_votingStartBlock = 552448, job_votingEndBlock = 552448, job_totalBlocks = 1,
       job_height = 552449, job_yesVotes = yes, job_noVotes = 0 \<rparr>"

definition firstTally :: TSpendVotingInfo where
  "firstTally =
     \<lparr> VotingStartBlock = 552448, VotingEndBlock = 552448, YesVotes = 1, NoVotes = 0,
       EligibleVotes = 5, VotesCast = 1, QuorumRequired = 1, ApprovalRate = 100,
       TurnoutRate = 20, QuorumAchieved = True, VotingComplete = True, InMempool = False,
       VotingStartTime = None, VotingEndTime = None \<rparr>"

definition secondTally :: TSpendVotingInfo where
  "secondTally =
     \<lparr> VotingStartBlock = 552448, VotingEndBlock = 552448, YesVotes = 0, NoVotes = 0,
       EligibleVotes = 5, VotesCast = 0, QuorumRequired = 1, ApprovalRate = 0,
       TurnoutRate = 0, QuorumAchieved = False, VotingComplete = True, InMempool = False,
       VotingStartTime = None, VotingEndTime = None \<rparr>"

definition afterFirstJob :: config where
  "afterFirstJob =
     afterRace\<lparr>shared := \<lparr> votingCache = [demoHashHex \<mapsto> firstTally],
                            voteParsingProgress = [demoHashHex \<mapsto> doneProgress 1],
                            parsingJobs = Map.empty \<rparr>,
               jobs := [doneJob 1, newJob demoHashHex 552448]\<rparr>"

definition afterSecondJob :: config where
  "afterSecondJob =
     afterRace\<lparr>shared := \<lparr> votingCache = [demoHashHex \<mapsto> secondTally],
                            voteParsingProgress = [demoHashHex \<mapsto> doneProgress 0],
                            parsingJobs = Map.empty \<rparr>,
               jobs := [doneJob 1, doneJob 0]\<rparr>"

section \<open>Properties of the vote-bits decoder\<close>

subsection \<open>Reversal by pairs\<close>

lemma length_rev_pairs [simp]: "length (rev_pairs s) = length s"
  by (induction s rule: rev_pairs.induct) auto

lemma rev_pairs_nth:
  "even (length s) \<Longrightarrow> even i \<Longrightarrow> i < length s \<Longrightarrow>
   rev_pairs s ! i = s ! (length s - i - 2) \<and> rev_pairs s ! (i + 1) = s ! (length s - i - 2 + 1)"
proof (induction s rule: rev_pairs.induct)
  case (1 a b r)
  show ?case
  proof (cases "i < length r")
    case True
    with 1 have ih: "rev_pairs r ! i = r ! (length r - i - 2)"
        "rev_pairs r ! (i + 1) = r ! (length r - i - 2 + 1)" by auto
    from True 1 have i1: "i + 1 < length r" by (auto elim!: evenE)
    have le: "i + 2 \<le> length r" using i1 by simp
    have e1: "length (a # b # r) - i - 2 = Suc (Suc (length r - i - 2))" using le by simp
    have e2: "Suc (length r - Suc (Suc i)) = length r - Suc i" using i1 by simp
    show ?thesis using True i1 ih by (simp add: nth_append e1 e2)
  next
    case False
    with 1 have "i = length r" by (auto elim!: evenE)
    then show ?thesis by (simp add: nth_append)
  qed
qed auto

lemma loop_inv:
  "even (length s) \<Longrightarrow> even i \<Longrightarrow> i \<le> length s \<Longrightarrow> length res = length s \<Longrightarrow>
   take i res = take i (rev_pairs s) \<Longrightarrow> reverseHexBytes_loop s i res = Some (rev_pairs s)"
proof (induction s i res rule: reverseHexBytes_loop.induct)
  case (1 hexStr i result)
  show ?case
  proof (cases "i < length hexStr")
    case False
    with 1 have "i = length hexStr" by simp
    with 1 show ?thesis by (simp add: reverseHexBytes_loop.simps)
  next
    case True
    with 1 have i1: "i + 1 < length hexStr" by (auto elim!: evenE)
    define srcPos where "srcPos = int (length hexStr) - int i - 2"
    have sp: "srcPos = int (length hexStr - i - 2)" using i1 by (simp add: srcPos_def)
    define c0 where "c0 = hexStr ! (length hexStr - i - 2)"
    define c1 where "c1 = hexStr ! (length hexStr - i - 2 + 1)"
    define r1 where "r1 = result[i := c0]"
    define r2 where "r2 = r1[i + 1 := c1]"
    have b0: "byte_at hexStr srcPos = Some c0"
      using i1 by (simp add: byte_at_def sp c0_def del: of_nat_diff)
    have b1: "byte_at hexStr (srcPos + 1) = Some c1"
    proof -
      have "nat (srcPos + 1) = length hexStr - i - 2 + 1" "0 \<le> srcPos + 1" using sp by simp_all
      moreover have "srcPos + 1 < int (length hexStr)" using i1 sp by simp
      ultimately show ?thesis unfolding byte_at_def c1_def by simp
    qed
    have s0: "set_byte result (int i) c0 = Some r1"
      using True 1(5) by (simp add: set_byte_def r1_def)
    have s1: "set_byte r1 (int i + 1) c1 = Some r2"
    proof -
      have "nat (int i + 1) = i + 1" by simp
      moreover have "int i + 1 < int (length r1)" using i1 1(5) by (simp add: r1_def)
      ultimately show ?thesis unfolding set_byte_def r2_def by simp
    qed
    from rev_pairs_nth[OF 1(2) 1(3) True]
    have n: "rev_pairs hexStr ! i = c0" "rev_pairs hexStr ! (i + 1) = c1"
      by (auto simp: c0_def c1_def)
    have "take (i + 2) r2 = take i result @ [c0, c1]"
      using i1 1(5) by (simp add: take_Suc_conv_app_nth r1_def r2_def)
    also have "\<dots> = take (i + 2) (rev_pairs hexStr)"
      using i1 1(6) n by (simp add: take_Suc_conv_app_nth)
    finally have t: "take (i + 2) r2 = take (i + 2) (rev_pairs hexStr)" .
    have len2: "length r2 = length hexStr" using 1(5) by (simp add: r1_def r2_def)
    have "reverseHexBytes_loop hexStr (i + 2) r2 = Some (rev_pairs hexStr)"
      using 1(1)[OF True srcPos_def b0 s0 b1 s1] 1(2,3) i1 t len2 by simp
    then show ?thesis using True b0 b1 s0 s1
      by (subst reverseHexBytes_loop.simps) (simp add: Let_def srcPos_def)
  qed
qed

lemma reverseHexBytes_even: "even (length s) \<Longrightarrow> reverseHexBytes s = Some (rev_pairs s)"
  unfolding reverseHexBytes_def using loop_inv[of s 0 "replicate (length s) (CHR 0x00)"] by simp

lemma reverseHexBytes_odd: "odd (length s) \<Longrightarrow> reverseHexBytes s = Some s"
  unfolding reverseHexBytes_def by (simp add: odd_iff_mod_2_eq_one)

lemma reverseHexBytes_total: "\<exists>r. reverseHexBytes s = Some r \<and> length r = length s"
  by (cases "even (length s)") (simp_all add: reverseHexBytes_even reverseHexBytes_odd)

subsection \<open>Hexadecimal digits and case folding\<close>

lemma hexval_lt16: "hexval c = Some x \<Longrightarrow> x < 16"
  by (auto simp: hexval_def Let_def split: if_splits)

lemma hexval_ascii: "hexval c = Some x \<Longrightarrow> byteval c < 128"
  by (auto simp: hexval_def Let_def split: if_splits)

lemma byteval_inj: "byteval c = byteval d \<longleftrightarrow> c = d"
  by (simp add: byteval_def)

lemma hexval_fold:
  assumes "hexval c = Some x" "hexval d = Some y"
  shows "(x = y) \<longleftrightarrow> (d = c \<or>
      (65 \<le> min (byteval c) (byteval d) \<and> min (byteval c) (byteval d) \<le> 90 \<and>
       max (byteval c) (byteval d) = min (byteval c) (byteval d) + 32))"
proof -
  have "d = c \<longleftrightarrow> byteval d = byteval c" by (simp add: byteval_inj)
  then show ?thesis using assms
    by (auto simp: hexval_def Let_def min_def max_def split: if_splits)
qed

lemma hex_byte_inj:
  assumes "x < 16" "y < 16" "x' < 16" "y' < 16"
  shows "((word_of_nat (16 * x + y) :: 8 word) = word_of_nat (16 * x' + y')) \<longleftrightarrow> (x = x' \<and> y = y')"
proof -
  have b: "16 * x + y < 2 ^ LENGTH(8)" "16 * x' + y' < 2 ^ LENGTH(8)" using assms by auto
  have u: "unat (word_of_nat (16 * x + y) :: 8 word) = 16 * x + y"
          "unat (word_of_nat (16 * x' + y') :: 8 word) = 16 * x' + y'"
    by (rule of_nat_inverse[OF refl b(1)]) (rule of_nat_inverse[OF refl b(2)])
  have "((word_of_nat (16 * x + y) :: 8 word) = word_of_nat (16 * x' + y')) \<longleftrightarrow> 16 * x + y = 16 * x' + y'"
    using u by (metis)
  also have "\<dots> \<longleftrightarrow> (x = x' \<and> y = y')"
  proof
    assume e: "16 * x + y = 16 * x' + y'"
    have "(16 * x + y) div 16 = x" "(16 * x' + y') div 16 = x'" using assms by simp_all
    with e have "x = x'" by simp
    with e show "x = x' \<and> y = y'" by simp
  qed simp
  finally show ?thesis .
qed

lemma hex_decode_length: "hex_decode s = Some bs \<Longrightarrow> length s = 2 * length bs"
  by (induction s arbitrary: bs rule: hex_decode.induct) (auto split: option.splits)

lemma EqualFold_hex:
  "hex_decode s = Some a \<Longrightarrow> hex_decode t = Some b \<Longrightarrow> EqualFold uf s t = (a = b)"
proof (induction s arbitrary: t a b rule: hex_decode.induct)
  case 1
  then show ?case by (cases t rule: hex_decode.cases) (auto split: option.splits)
next
  case (2 c)
  then show ?case by simp
next
  case (3 c1 c2 r)
  from 3(2) obtain x1 x2 a' where c: "hexval c1 = Some x1" "hexval c2 = Some x2"
      "hex_decode r = Some a'" "a = word_of_nat (16 * x1 + x2) # a'"
    by (auto split: option.splits)
  show ?case
  proof (cases t rule: hex_decode.cases)
    case 1
    with 3 c show ?thesis by simp
  next
    case (2 d)
    with 3 show ?thesis by simp
  next
    case (3 d1 d2 r')
    with "3.prems"(2) obtain y1 y2 b' where d: "hexval d1 = Some y1" "hexval d2 = Some y2"
        "hex_decode r' = Some b'" "b = word_of_nat (16 * y1 + y2) # b'"
      by (auto split: option.splits)
    have ih: "EqualFold uf r r' = (a' = b')"
      using "3.IH"[OF c(1) c(2) c(3) d(3)] .
    have asc: "\<not> 128 \<le> byteval c1" "\<not> 128 \<le> byteval c2" "\<not> 128 \<le> byteval d1" "\<not> 128 \<le> byteval d2"
      using hexval_ascii[OF c(1)] hexval_ascii[OF c(2)] hexval_ascii[OF d(1)] hexval_ascii[OF d(2)] by auto
    have f1: "(x1 = y1) \<longleftrightarrow> (d1 = c1 \<or>
      (65 \<le> min (byteval c1) (byteval d1) \<and> min (byteval c1) (byteval d1) \<le> 90 \<and>
       max (byteval c1) (byteval d1) = min (byteval c1) (byteval d1) + 32))"
      by (rule hexval_fold[OF c(1) d(1)])
    have f2: "(x2 = y2) \<longleftrightarrow> (d2 = c2 \<or>
      (65 \<le> min (byteval c2) (byteval d2) \<and> min (byteval c2) (byteval d2) \<le> 90 \<and>
       max (byteval c2) (byteval d2) = min (byteval c2) (byteval d2) + 32))"
      by (rule hexval_fold[OF c(2) d(2)])
    have "EqualFold uf (c1 # c2 # r) (d1 # d2 # r') = (x1 = y1 \<and> x2 = y2 \<and> a' = b')"
      using asc ih f1 f2 by (auto simp: Let_def)
    also have "\<dots> = (a = b)"
      using c(4) d(4) hex_byte_inj[OF hexval_lt16[OF c(1)] hexval_lt16[OF c(2)] hexval_lt16[OF d(1)] hexval_lt16[OF d(2)]]
      by auto
    finally show ?thesis using 3 by simp
  qed
qed

lemma hex_decode_append:
  "hex_decode s = Some a \<Longrightarrow> hex_decode t = Some b \<Longrightarrow> hex_decode (s @ t) = Some (a @ b)"
  by (induction s arbitrary: a rule: hex_decode.induct) (auto split: option.splits)


lemma hex_decode_rev_pairs: "hex_decode s = Some bs \<Longrightarrow> hex_decode (rev_pairs s) = Some (rev bs)"
proof (induction s arbitrary: bs rule: hex_decode.induct)
  case (3 a b r)
  then obtain x y bs' where h: "hexval a = Some x" "hexval b = Some y" "hex_decode r = Some bs'"
     "bs = word_of_nat (16 * x + y) # bs'" by (auto split: option.splits)
  have "hex_decode [a, b] = Some [word_of_nat (16 * x + y)]" using h by simp
  with 3(1)[OF h(1) h(2) h(3)] h show ?case
    by (simp add: hex_decode_append del: hex_decode.simps(3))
qed auto

lemma hex_decode_split:
  "hex_decode s = Some (xs @ ys) \<Longrightarrow>
   hex_decode (take (2 * length xs) s) = Some xs \<and> hex_decode (drop (2 * length xs) s) = Some ys"
proof (induction xs arbitrary: s)
  case Nil
  then show ?case by simp
next
  case (Cons x xs)
  then show ?case
    by (cases s rule: hex_decode.cases) (auto split: option.splits)
qed

lemma sscanf_hex: "hex_decode vh = Some [v] \<Longrightarrow> sscanf_02x vh = v"
  by (cases vh rule: hex_decode.cases)
     (auto simp: sscanf_02x_def split: option.splits list.splits elim: hex_decode.elims)

lemma hex_decode_zeros: "hex_decode (replicate (2 * n) (CHR ''0'')) = Some (replicate n 0)"
  by (induction n) (simp_all add: hexval_def byteval_def)

lemma demoHashHex_decode: "hex_decode demoHashHex = Some demoHash"
  unfolding demoHashHex_def demoHash_def
  using hex_decode_zeros[of 29]
  by (simp add: hex_decode_append hexval_def byteval_def)

lemma demoPayload_decode: "hex_decode demoPayload = Some ([0x6a, 0x24, 0x54, 0x62] @ rev demoHash @ [0xfd])"
  unfolding demoPayload_def demoHash_def
  using hex_decode_zeros[of 29]
  by (simp add: hex_decode_append hexval_def byteval_def)

subsection \<open>The decoder on a well-formed payload\<close>

lemma parse_total: "\<exists>l. parseVoteBitsForTSpend uf hexData tspendHash = Some l \<and> l \<in> {''yes'', ''no'', ''abstain'', ''invalid'', ''unknown''}"
proof -
  obtain r where r: "reverseHexBytes (take 64 (drop 8 hexData)) = Some r"
    using reverseHexBytes_total by blast
  show ?thesis
    unfolding parseVoteBitsForTSpend_def
    by (simp add: Let_def slice_from_def slice_to_def slice_between_def r)
qed

lemma parse_matching:
  assumes enc: "hex_decode hexData = Some ([opcode, len, p1, p2] @ rev H @ [v])"
      and len: "length H = 32"
  shows "parseVoteBitsForTSpend uf hexData t =
           (if \<not> EqualFold uf (rev_pairs (take 64 (drop 8 hexData))) t then Some ''unknown''
            else if v AND 3 = 0 then Some ''abstain''
            else if v AND 3 = 1 then Some ''yes''
            else if v AND 3 = 2 then Some ''no''
            else if v AND 3 = 3 then Some ''invalid''
            else Some ''unknown'')
         \<and> hex_decode (rev_pairs (take 64 (drop 8 hexData))) = Some H"
proof -
  have l: "length hexData = 74"
    using hex_decode_length[OF enc] len by simp
  from hex_decode_split[of hexData "[opcode, len, p1, p2]" "rev H @ [v]"] enc
  have d8: "hex_decode (drop 8 hexData) = Some (rev H @ [v])" by simp
  from hex_decode_split[OF d8] len
  have h: "hex_decode (take 64 (drop 8 hexData)) = Some (rev H)"
   and vb: "hex_decode (drop 64 (drop 8 hexData)) = Some [v]" by simp_all
  have ev: "even (length (take 64 (drop 8 hexData)))" using l by simp
  have r: "reverseHexBytes (take 64 (drop 8 hexData)) = Some (rev_pairs (take 64 (drop 8 hexData)))"
    by (rule reverseHexBytes_even[OF ev])
  have hd: "hex_decode (rev_pairs (take 64 (drop 8 hexData))) = Some H"
    using hex_decode_rev_pairs[OF h] by simp
  have sc: "sscanf_02x (drop 72 hexData) = v" using sscanf_hex[OF vb] by simp
  show ?thesis
    unfolding parseVoteBitsForTSpend_def using l hd
    by (simp add: Let_def slice_from_def slice_to_def slice_between_def r sc)
qed

text \<open>
  Claim C1 (codec round trip). Let \<open>H\<close> be a 32-byte hash, and let \<open>hexData\<close> be a
  hexadecimal writing, in either letter case, of these bytes: one opcode byte, one length
  byte, a two-byte prefix, the bytes of \<open>H\<close> in reverse order, and one byte \<open>v\<close> whose
  low two bits encode the choice \<open>c\<close> (00 abstain, 01 yes, 10 no, 11 invalid). Decoding
  \<open>hexData\<close> against a hexadecimal writing of \<open>H\<close> returns the label of \<open>c\<close>, and
  decoding it against a writing of any other hash returns \<open>unknown\<close>. This holds for
  every Unicode continuation \<open>uf\<close>.
\<close>

theorem codec_round_trip:
  assumes enc: "hex_decode hexData = Some ([opcode, len, p1, p2] @ rev H @ [v])"
      and len: "length H = 32"
      and tgt: "hex_decode tspendHash = Some H"
      and bits: "v AND 3 = choice_bits c"
  shows "parseVoteBitsForTSpend uf hexData tspendHash = Some (choice_label c) \<and>
         (\<forall>otherHash H'. hex_decode otherHash = Some H' \<and> H' \<noteq> H \<longrightarrow>
            parseVoteBitsForTSpend uf hexData otherHash = Some ''unknown'')"
proof (intro conjI allI impI)
  note pm = parse_matching[OF enc len, of uf]
  have "EqualFold uf (rev_pairs (take 64 (drop 8 hexData))) tspendHash"
    using EqualFold_hex[OF conjunct2[OF pm] tgt] by simp
  then show "parseVoteBitsForTSpend uf hexData tspendHash = Some (choice_label c)"
    using conjunct1[OF pm, of tspendHash] bits by (cases c) simp_all
next
  fix otherHash H'
  assume o: "hex_decode otherHash = Some H' \<and> H' \<noteq> H"
  note pm = parse_matching[OF enc len, of uf]
  have "\<not> EqualFold uf (rev_pairs (take 64 (drop 8 hexData))) otherHash"
    using EqualFold_hex[OF conjunct2[OF pm] conjunct1[OF o]] o by auto
  then show "parseVoteBitsForTSpend uf hexData otherHash = Some ''unknown''"
    using conjunct1[OF pm, of otherHash] by simp
qed

text \<open>
  The round trip on the example payload: it decodes to \<open>yes\<close> against its own hash and
  to \<open>unknown\<close> against the hash of 32 zero bytes.
\<close>

theorem codec_round_trip_witness:
  "parseVoteBitsForTSpend (\<lambda>s t. False) demoPayload demoHashHex = Some ''yes'' \<and>
   parseVoteBitsForTSpend (\<lambda>s t. False) demoPayload (replicate 64 (CHR ''0'')) = Some ''unknown''"
proof -
  have z: "hex_decode (replicate 64 (CHR ''0'')) = Some (replicate 32 0)"
    using hex_decode_zeros[of 32] by simp
  have ne: "replicate 32 (0::8 word) \<noteq> demoHash"
  proof
    assume "replicate 32 (0::8 word) = demoHash"
    then have "hd (replicate 32 (0::8 word)) = hd demoHash" by (rule arg_cong)
    then show False by (simp add: demoHash_def)
  qed
  have l: "length demoHash = 32" by (simp add: demoHash_def)
  have b: "(0xfd :: 8 word) AND 3 = choice_bits Yes" by simp
  from codec_round_trip[OF demoPayload_decode l demoHashHex_decode b, of "\<lambda>s t. False"] z ne
  show ?thesis by auto
qed



















lemma demo_payload_yes: "parseVoteBitsForTSpend uf demoPayload demoHashHex = Some ''yes''"
proof -
  have l: "length demoHash = 32" by (simp add: demoHash_def)
  note pm = parse_matching[OF demoPayload_decode l, of uf demoHashHex]
  have "EqualFold uf (rev_pairs (take 64 (drop 8 demoPayload))) demoHashHex"
    using EqualFold_hex[OF conjunct2[OF pm] demoHashHex_decode] by simp
  then show ?thesis using conjunct1[OF pm] by simp
qed

lemma demoPayload_nonempty: "demoPayload \<noteq> []"
  by (simp add: demoPayload_def)

section \<open>Properties of the spend detector\<close>

lemma asObject_Some_iff: "asObject x = Some m \<longleftrightarrow> x = Some (JObj m)"
  by (auto simp: asObject_def split: option.splits json.splits)

lemma asString_Some_iff: "asString x = Some m \<longleftrightarrow> x = Some (JStr m)"
  by (auto simp: asString_def split: option.splits json.splits)

lemma asArray_Some_iff: "asArray x = Some m \<longleftrightarrow> x = Some (JArr m)"
  by (auto simp: asArray_def split: option.splits json.splits)

lemma asFloat_Some_iff: "asFloat x = Some m \<longleftrightarrow> x = Some (JNum m)"
  by (auto simp: asFloat_def split: option.splits json.splits)

lemma as_simps [simp]:
  "asArray (Some (JArr xs)) = Some xs" "asObject (Some (JObj m)) = Some m"
  "asString (Some (JStr t)) = Some t" "asFloat (Some (JNum n)) = Some n"
  "asArray None = None" "asObject None = None" "asString None = None" "asFloat None = None"
  by (simp_all add: asArray_def asObject_def asString_def asFloat_def)

lemma version_eq: "((case asFloat (map_of tx ''version'') of Some n \<Rightarrow> n | None \<Rightarrow> 0) = 3) = version_is_3 tx"
  by (auto simp: version_is_3_def asFloat_Some_iff split: option.splits)

lemma isTreasurySpend_vin_iff:
  "isTreasurySpend_vin vin \<longleftrightarrow> (\<exists>vinMap. JObj vinMap \<in> set vin \<and> ''treasuryspend'' \<in> dom (map_of vinMap))"
proof (induction vin)
  case Nil
  then show ?case by simp
next
  case (Cons v vin)
  show ?case
  proof (cases v)
    case (JObj m)
    then show ?thesis using Cons by (auto simp: asObject_def)
  qed (use Cons in \<open>auto simp: asObject_def\<close>)
qed

lemma isTreasurySpend_vout_iff:
  "isTreasurySpend_vout tx vout \<longleftrightarrow> (version_is_3 tx \<and> (\<exists>v \<in> set vout. gen_output v))"
proof (induction vout)
  case Nil
  then show ?case by simp
next
  case (Cons v vout)
  show ?case
  proof (cases "gen_output v")
    case True
    then show ?thesis using Cons
      by (auto simp: gen_output_def asObject_def asString_def Let_def version_eq)
  next
    case False
    then have "isTreasurySpend_vout tx (v # vout) = isTreasurySpend_vout tx vout"
      by (auto simp: gen_output_def asObject_Some_iff asString_Some_iff Let_def split: option.splits)
    then show ?thesis using Cons False by simp
  qed
qed

lemma isTreasurySpend_iff:
  "isTreasurySpend tx \<longleftrightarrow> has_input_marker tx \<or> (has_treasurygen_output tx \<and> version_is_3 tx)"
proof -
  have a: "(case asArray (map_of tx ''vin'') of Some vin \<Rightarrow> length vin > 0 \<and> isTreasurySpend_vin vin | None \<Rightarrow> False)
        = has_input_marker tx"
    by (auto simp: has_input_marker_def isTreasurySpend_vin_iff asArray_Some_iff split: option.splits)
  have b: "(case asArray (map_of tx ''vout'') of Some vout \<Rightarrow> length vout > 0 \<and> isTreasurySpend_vout tx vout | None \<Rightarrow> False)
        = (has_treasurygen_output tx \<and> version_is_3 tx)"
    by (auto simp: has_treasurygen_output_def isTreasurySpend_vout_iff gen_output_def asArray_Some_iff split: option.splits)
  show ?thesis unfolding isTreasurySpend_def a b by auto
qed

text \<open>
  Claim C4 (classification). A transaction in which some input carries the
  \<open>treasuryspend\<close> marker is detected, whatever its other fields are. A transaction
  without such an input, with an output whose script type contains \<open>treasurygen\<close> in any
  letter case, and with version 3, is detected. A transaction with neither signal is not
  detected; this includes the records whose \<open>vin\<close>, \<open>vout\<close> or \<open>version\<close> is absent
  or of the wrong type, which give no signal. The detector is a total function of the
  record with no operation that can panic.
\<close>

theorem detector_classifies:
  "(has_input_marker tx \<longrightarrow> isTreasurySpend tx) \<and>
   (\<not> has_input_marker tx \<and> has_treasurygen_output tx \<and> version_is_3 tx \<longrightarrow> isTreasurySpend tx) \<and>
   (\<not> has_input_marker tx \<and> \<not> (has_treasurygen_output tx \<and> version_is_3 tx) \<longrightarrow>
      \<not> isTreasurySpend tx)"
proof (intro conjI impI)
  assume "has_input_marker tx"
  then show "isTreasurySpend tx" by (simp add: isTreasurySpend_iff)
next
  assume "\<not> has_input_marker tx \<and> has_treasurygen_output tx \<and> version_is_3 tx"
  then show "isTreasurySpend tx" by (simp add: isTreasurySpend_iff)
next
  assume "\<not> has_input_marker tx \<and> \<not> (has_treasurygen_output tx \<and> version_is_3 tx)"
  then show "\<not> isTreasurySpend tx" by (simp add: isTreasurySpend_iff)
qed

lemma lower_example: "ToLower ''TreasuryGen-PubKeyHash'' = ''treasurygen-pubkeyhash''"
  by code_simp

lemma markerTx_marker: "has_input_marker markerTx"
  unfolding has_input_marker_def markerTx_def
  by (rule exI[of _ "[JStr ''junk'', JObj [(''treasuryspend'', JNull)]]"],
      rule exI[of _ "[(''treasuryspend'', JNull)]"]) simp

lemma genTx_no_marker: "\<not> has_input_marker genTx"
  by (auto simp: has_input_marker_def genTx_def)

lemma genTx_output: "has_treasurygen_output genTx"
  unfolding has_treasurygen_output_def genTx_def
  by (rule exI[of _ "[JObj [(''scriptPubKey'', JObj [(''type'', JStr ''TreasuryGen-PubKeyHash'')])]]"],
      rule exI[of _ "[(''scriptPubKey'', JObj [(''type'', JStr ''TreasuryGen-PubKeyHash'')])]"],
      rule exI[of _ "[(''type'', JStr ''TreasuryGen-PubKeyHash'')]"],
      rule exI[of _ "''TreasuryGen-PubKeyHash''"])
     (simp add: lower_example)

lemma genTx_version: "version_is_3 genTx"
  by (simp add: version_is_3_def genTx_def)

lemma plainTx_no_marker: "\<not> has_input_marker plainTx"
  by (auto simp: has_input_marker_def plainTx_def)

lemma plainTx_version: "\<not> version_is_3 plainTx"
  by (simp add: version_is_3_def plainTx_def)

text \<open>The three cases of claim C4 on the example transactions.\<close>

theorem detector_classifies_witness:
  "isTreasurySpend markerTx \<and> isTreasurySpend genTx \<and> \<not> isTreasurySpend plainTx"
  using detector_classifies[of markerTx] detector_classifies[of genTx]
    detector_classifies[of plainTx]
    markerTx_marker genTx_no_marker genTx_output genTx_version plainTx_no_marker plainTx_version
  by blast

section \<open>Properties of the per-transaction vote decoder\<close>

text \<open>
  Claim C10 (fewer than two outputs). When the output list of a transaction is absent, of
  the wrong type, or has fewer than two entries, the vote decoded from the transaction is
  \<open>unknown\<close> for every target hash.
\<close>

theorem vote_needs_two_outputs:
  assumes "map_of tx ''vout'' = None \<or>
           (\<exists>v. map_of tx ''vout'' = Some v \<and> (\<forall>xs. v \<noteq> JArr xs)) \<or>
           (\<exists>vout. map_of tx ''vout'' = Some (JArr vout) \<and> length vout < 2)"
  shows "parseTSpendVote uf tx tspendHash = Some ''unknown''"
  using assms
proof (elim disjE exE conjE)
  assume "map_of tx ''vout'' = None"
  then show ?thesis by (simp add: parseTSpendVote_def)
next
  fix v
  assume "map_of tx ''vout'' = Some v" "\<forall>xs. v \<noteq> JArr xs"
  then have "asArray (map_of tx ''vout'') = None"
    by (cases v) (simp_all add: asArray_def)
  then show ?thesis by (simp add: parseTSpendVote_def)
next
  fix vout
  assume "map_of tx ''vout'' = Some (JArr vout)" "length vout < 2"
  then show ?thesis by (simp add: parseTSpendVote_def)
qed

text \<open>
  The vote whose only output carries the example payload decodes to \<open>unknown\<close>, although
  the loop over that one output would return \<open>yes\<close>; so do a transaction whose \<open>vout\<close>
  is a string and a transaction without \<open>vout\<close>.
\<close>

theorem vote_needs_two_outputs_witness:
  "parseTSpendVote noUnicodeFold singleOutputVote demoHashHex = Some ''unknown'' \<and>
   parseTSpendVote_loop noUnicodeFold
     [JObj [(''scriptPubKey'', JObj [(''type'', JStr ''nulldata''), (''hex'', JStr demoPayload)])]]
     demoHashHex = Some ''yes'' \<and>
   parseTSpendVote noUnicodeFold [(''vout'', JStr ''junk'')] demoHashHex = Some ''unknown'' \<and>
   parseTSpendVote noUnicodeFold [] demoHashHex = Some ''unknown''"
proof -
  have a: "\<exists>vout. map_of singleOutputVote ''vout'' = Some (JArr vout) \<and> length vout < 2"
    by (simp add: singleOutputVote_def)
  have b: "\<exists>v. map_of [(''vout'', JStr ''junk'')] ''vout'' = Some v \<and> (\<forall>xs. v \<noteq> JArr xs)"
    by simp
  have c: "map_of ([] :: jobject) ''vout'' = None" by simp
  have d: "parseTSpendVote_loop noUnicodeFold
     [JObj [(''scriptPubKey'', JObj [(''type'', JStr ''nulldata''), (''hex'', JStr demoPayload)])]]
     demoHashHex = Some ''yes''"
    by (simp add: demo_payload_yes demoPayload_nonempty)
  have 1: "parseTSpendVote noUnicodeFold singleOutputVote demoHashHex = Some ''unknown''"
    by (rule vote_needs_two_outputs, rule disjI2, rule disjI2, rule a)
  have 2: "parseTSpendVote noUnicodeFold [(''vout'', JStr ''junk'')] demoHashHex = Some ''unknown''"
    by (rule vote_needs_two_outputs, rule disjI2, rule disjI1, rule b)
  have 3: "parseTSpendVote noUnicodeFold [] demoHashHex = Some ''unknown''"
    by (rule vote_needs_two_outputs, rule disjI1, rule c)
  show ?thesis using 1 2 3 d by (intro conjI)
qed

lemma parseTSpendVote_loop_total: "\<exists>l. parseTSpendVote_loop uf vout h = Some l"
proof (induction vout)
  case Nil
  then show ?case by simp
next
  case (Cons v vout)
  obtain l where l: "parseTSpendVote_loop uf vout h = Some l" using Cons by blast
  have p: "\<And>hexData. \<exists>x. parseVoteBitsForTSpend uf hexData h = Some x"
    using parse_total by blast
  show ?case
  proof (cases "\<exists>m spk hexData. asObject (Some v) = Some m \<and> asObject (map_of m ''scriptPubKey'') = Some spk \<and>
      (case asString (map_of spk ''type'') of Some s \<Rightarrow> s | None \<Rightarrow> []) = ''nulldata'' \<and>
      asString (map_of spk ''hex'') = Some hexData \<and> hexData \<noteq> []")
    case True
    then obtain m spk hexData where t: "asObject (Some v) = Some m" "asObject (map_of m ''scriptPubKey'') = Some spk"
      "(case asString (map_of spk ''type'') of Some s \<Rightarrow> s | None \<Rightarrow> []) = ''nulldata''"
      "asString (map_of spk ''hex'') = Some hexData" "hexData \<noteq> []" by blast
    obtain x where x: "parseVoteBitsForTSpend uf hexData h = Some x" using p by blast
    show ?thesis using t x l by (simp add: Let_def)
  next
    case False
    then have "parseTSpendVote_loop uf (v # vout) h = parseTSpendVote_loop uf vout h"
      by (auto simp: Let_def split: option.splits)
    then show ?thesis using l by simp
  qed
qed

lemma parseTSpendVote_total: "\<exists>l. parseTSpendVote uf tx h = Some l"
  using parseTSpendVote_loop_total by (auto simp: parseTSpendVote_def split: option.splits)

section \<open>Properties of the historical scanner\<close>

text \<open>
  Claim C5 (trigger guard). \<open>TriggerHistoricalScan\<close> returns the error \<open>scan already in
  progress\<close> exactly when a scan is running, and then it leaves the state as it is and
  launches nothing. Otherwise it returns no error, and the state it leaves has the running
  flag set, the current height at the start height raised to the activation height
  552448, the found counter at 0 and both lists empty; every other variable is unchanged,
  and the background scan is launched from the raised start height.
\<close>

theorem trigger_scan_guard:
  "(fst (TriggerHistoricalScan startHeight s) = Some ''scan already in progress''
      \<longleftrightarrow> isScanRunning s) \<and>
   (isScanRunning s \<longrightarrow>
      fst (snd (TriggerHistoricalScan startHeight s)) = s \<and>
      snd (snd (TriggerHistoricalScan startHeight s)) = None) \<and>
   (\<not> isScanRunning s \<longrightarrow>
      fst (TriggerHistoricalScan startHeight s) = None \<and>
      fst (snd (TriggerHistoricalScan startHeight s)) =
        s\<lparr>isScanRunning := True,
          currentScanHeight := max startHeight TreasuryActivationHeight,
          tspendFoundCount := 0, scanResults := [], newTSpendBuffer := []\<rparr> \<and>
      snd (snd (TriggerHistoricalScan startHeight s)) =
        Some (max startHeight TreasuryActivationHeight))"
proof (cases "isScanRunning s")
  case True
  then have "TriggerHistoricalScan startHeight s = (Some ''scan already in progress'', s, None)"
    by (simp add: TriggerHistoricalScan_def)
  then show ?thesis using True by simp
next
  case False
  have m: "(if startHeight < TreasuryActivationHeight then TreasuryActivationHeight else startHeight)
             = max startHeight TreasuryActivationHeight"
    by (simp add: max_def)
  have "TriggerHistoricalScan startHeight s =
          (None,
           s\<lparr>isScanRunning := True,
             currentScanHeight := max startHeight TreasuryActivationHeight,
             tspendFoundCount := 0, scanResults := [], newTSpendBuffer := []\<rparr>,
           Some (max startHeight TreasuryActivationHeight))"
    using False unfolding TriggerHistoricalScan_def Let_def m by simp
  then show ?thesis using False by simp
qed

text \<open>
  A trigger at height 100 on the initial state is accepted and starts at 552448; a second
  trigger on the state it leaves is refused and changes nothing.
\<close>

theorem trigger_scan_guard_witness:
  "fst (TriggerHistoricalScan 100 initialScanState) = None \<and>
   currentScanHeight (fst (snd (TriggerHistoricalScan 100 initialScanState))) = 552448 \<and>
   isScanRunning (fst (snd (TriggerHistoricalScan 100 initialScanState))) \<and>
   fst (TriggerHistoricalScan 600000 (fst (snd (TriggerHistoricalScan 100 initialScanState))))
     = Some ''scan already in progress'' \<and>
   fst (snd (TriggerHistoricalScan 600000 (fst (snd (TriggerHistoricalScan 100 initialScanState)))))
     = fst (snd (TriggerHistoricalScan 100 initialScanState))"
proof -
  have a: "\<not> isScanRunning initialScanState" by (simp add: initialScanState_def)
  note t1 = trigger_scan_guard[of 100 initialScanState]
  have b: "isScanRunning (fst (snd (TriggerHistoricalScan 100 initialScanState)))"
    using t1 a by simp
  note t2 = trigger_scan_guard[of 600000 "fst (snd (TriggerHistoricalScan 100 initialScanState))"]
  show ?thesis using t1 t2 a b by (simp add: TreasuryActivationHeight_def)
qed

lemma wrap64_id: "in_int64 x \<Longrightarrow> wrap64 x = x"
  unfolding in_int64_def wrap64_def by (simp add: signed_take_bit_int_eq_self)

lemma overshoot_scan_returns:
  "scanHistoricalTSpendsBackground tipLedger 1000000
     (fst (snd (TriggerHistoricalScan 1000000 initialScanState))) =
   Some (initialScanState\<lparr>currentScanHeight := 1000000, totalScanHeight := 900000\<rparr>)"
  by (simp add: scanHistoricalTSpendsBackground_def TriggerHistoricalScan_def tipLedger_def
      initialScanState_def TreasuryActivationHeight_def scanHeights.simps)

lemma overshootState_eq:
  "overshootState = initialScanState\<lparr>currentScanHeight := 1000000, totalScanHeight := 900000\<rparr>"
  unfolding overshootState_def overshoot_scan_returns by simp

lemma scan_without_client:
  "\<not> clientAvailable L \<Longrightarrow> scanHistoricalTSpendsBackground L startHeight s = None"
  by (simp add: scanHistoricalTSpendsBackground_def)

text \<open>
  Claim C6 as the specification states it says that the percentage is the quotient
  \<open>(current - floor) / (tip - floor) * 100\<close> clamped to the interval from 0 to 100. It
  fails: a scan triggered at height 1000000 on a chain whose tip is 900000 leaves the
  current height above the tip, and the progress query then reports more than 100.
\<close>

theorem scan_percent_counterexample:
  "ScanPercent (fst (GetScanProgress overshootState)) > 100 \<and>
   ScanPercent (fst (GetScanProgress overshootState)) \<noteq> clampedPercent 1000000 900000"
  unfolding overshootState_eq
  by (simp add: GetScanProgress_def initialScanState_def TreasuryActivationHeight_def wrap64_def
      clampedPercent_def Let_def)

text \<open>
  Claim C6, amended. The percentage is 0 when the total height is not above the activation
  height. Otherwise it is the quotient \<open>(current - floor) / (total - floor) * 100\<close>
  itself, with no clamping (for heights whose difference to the floor is a 64-bit
  integer), and it lies between 0 and 100 exactly when the current height lies between
  the activation height and the total height.
\<close>

theorem scan_percent_unclamped:
  "(totalScanHeight s \<le> TreasuryActivationHeight \<longrightarrow> ScanPercent (fst (GetScanProgress s)) = 0) \<and>
   (TreasuryActivationHeight < totalScanHeight s \<and> in_int64 (totalScanHeight s) \<and>
    in_int64 (currentScanHeight s - TreasuryActivationHeight) \<longrightarrow>
      ScanPercent (fst (GetScanProgress s)) =
        of_int (currentScanHeight s - TreasuryActivationHeight) /
        of_int (totalScanHeight s - TreasuryActivationHeight) * 100 \<and>
      ((0 \<le> ScanPercent (fst (GetScanProgress s)) \<and> ScanPercent (fst (GetScanProgress s)) \<le> 100)
         \<longleftrightarrow> (TreasuryActivationHeight \<le> currentScanHeight s \<and>
              currentScanHeight s \<le> totalScanHeight s)))"
proof (intro conjI impI)
  assume "totalScanHeight s \<le> TreasuryActivationHeight"
  then show "ScanPercent (fst (GetScanProgress s)) = 0"
    by (simp add: GetScanProgress_def Let_def)
next
  assume h: "TreasuryActivationHeight < totalScanHeight s \<and> in_int64 (totalScanHeight s) \<and>
    in_int64 (currentScanHeight s - TreasuryActivationHeight)"
  define c where "c = currentScanHeight s - TreasuryActivationHeight"
  define t where "t = totalScanHeight s - TreasuryActivationHeight"
  have tpos: "0 < t" using h by (simp add: t_def)
  have "in_int64 t" using h by (auto simp: in_int64_def t_def TreasuryActivationHeight_def)
  then have wt: "wrap64 t = t" by (rule wrap64_id)
  have wc: "wrap64 c = c" using h by (simp add: wrap64_id c_def)
  show eq: "ScanPercent (fst (GetScanProgress s)) =
        of_int (currentScanHeight s - TreasuryActivationHeight) /
        of_int (totalScanHeight s - TreasuryActivationHeight) * 100"
    using h wt wc by (simp add: GetScanProgress_def Let_def c_def t_def)
  have p: "ScanPercent (fst (GetScanProgress s)) = (of_int c / of_int t * 100 :: rat)"
    using eq by (simp add: c_def t_def)
  have tq: "(0::rat) < of_int t" using tpos by simp
  have "(0 \<le> (of_int c / of_int t * 100 :: rat)) \<longleftrightarrow> 0 \<le> c"
    using tq by (simp add: zero_le_divide_iff zero_le_mult_iff)
  moreover have "((of_int c / of_int t * 100 :: rat) \<le> 100) \<longleftrightarrow> c \<le> t"
  proof -
    have "((of_int c / of_int t * 100 :: rat) \<le> 100) \<longleftrightarrow> ((of_int c :: rat) * 100 \<le> 100 * of_int t)"
      using tq by (simp add: divide_le_eq)
    also have "\<dots> \<longleftrightarrow> ((of_int c :: rat) \<le> of_int t)" by simp
    also have "\<dots> \<longleftrightarrow> c \<le> t" by simp
    finally show ?thesis .
  qed
  ultimately show "(0 \<le> ScanPercent (fst (GetScanProgress s)) \<and> ScanPercent (fst (GetScanProgress s)) \<le> 100)
         \<longleftrightarrow> (TreasuryActivationHeight \<le> currentScanHeight s \<and>
              currentScanHeight s \<le> totalScanHeight s)"
    unfolding p by (auto simp: c_def t_def)
qed

text \<open>
  The initial state reports 0; a scan at height 600000 of 900000 reports the quotient,
  which lies between 0 and 100.
\<close>

theorem scan_percent_unclamped_witness:
  "ScanPercent (fst (GetScanProgress initialScanState)) = 0 \<and>
   ScanPercent (fst (GetScanProgress
      (initialScanState\<lparr>currentScanHeight := 600000, totalScanHeight := 900000\<rparr>))) =
     of_int (600000 - 552448) / of_int (900000 - 552448) * 100 \<and>
   0 \<le> ScanPercent (fst (GetScanProgress
      (initialScanState\<lparr>currentScanHeight := 600000, totalScanHeight := 900000\<rparr>))) \<and>
   ScanPercent (fst (GetScanProgress
      (initialScanState\<lparr>currentScanHeight := 600000, totalScanHeight := 900000\<rparr>))) \<le> 100"
proof -
  have a: "totalScanHeight initialScanState \<le> TreasuryActivationHeight"
    by (simp add: initialScanState_def TreasuryActivationHeight_def)
  define s where "s = initialScanState\<lparr>currentScanHeight := 600000, totalScanHeight := 900000\<rparr>"
  have b: "TreasuryActivationHeight < totalScanHeight s \<and> in_int64 (totalScanHeight s) \<and>
    in_int64 (currentScanHeight s - TreasuryActivationHeight)"
    by (simp add: s_def TreasuryActivationHeight_def in_int64_def)
  have c: "TreasuryActivationHeight \<le> currentScanHeight s \<and> currentScanHeight s \<le> totalScanHeight s"
    by (simp add: s_def TreasuryActivationHeight_def)
  have v: "currentScanHeight s = 600000" "totalScanHeight s = 900000" by (simp_all add: s_def)
  from scan_percent_unclamped[of initialScanState] a
  have 1: "ScanPercent (fst (GetScanProgress initialScanState)) = 0" by blast
  from scan_percent_unclamped[of s] b c
  have 2: "ScanPercent (fst (GetScanProgress s)) =
        of_int (currentScanHeight s - TreasuryActivationHeight) /
        of_int (totalScanHeight s - TreasuryActivationHeight) * 100"
      and 3: "0 \<le> ScanPercent (fst (GetScanProgress s))"
      and 4: "ScanPercent (fst (GetScanProgress s)) \<le> 100" by blast+
  show ?thesis using 1 2 3 4 unfolding v unfolding s_def TreasuryActivationHeight_def by simp
qed

section \<open>Properties of the mempool probe\<close>

lemma scanMempool_loop_eq:
  "scanMempool_loop L h keys acc =
     (let found = map (\<lambda>tx. extractTSpendInfo tx h)
                    (filter isTreasurySpend (List.map_filter (getTransaction L) keys))
      in if found = [] then acc
         else Some ((case acc of None \<Rightarrow> [] | Some xs \<Rightarrow> xs) @ found))"
proof (induction keys arbitrary: acc)
  case Nil
  then show ?case by (simp add:)
next
  case (Cons k keys)
  show ?case
  proof (cases "getTransaction L k")
    case None
    then show ?thesis using Cons by (simp add:)
  next
    case (Some tx)
    then show ?thesis using Cons
      by (cases acc) (simp_all add: go_append_def Let_def)
  qed
qed

lemma scanMempool_ok:
  "\<not> probe_fails_totally L \<Longrightarrow>
   scanMempoolForTSpends L = ((if spendsFound L = [] then None else Some (spendsFound L)), None)"
  unfolding scanMempoolForTSpends_def probe_fails_totally_def spendsFound_def mempoolKeys_def
  by (cases "getrawmempool L") (simp_all add: scanMempool_loop_eq Let_def)

lemma scanMempool_fail:
  "probe_fails_totally L \<Longrightarrow>
   fst (scanMempoolForTSpends L) = None \<and> snd (scanMempoolForTSpends L) \<noteq> None"
  unfolding scanMempoolForTSpends_def probe_fails_totally_def
  by (cases "getrawmempool L") auto

lemma spendTx_is_spend: "isTreasurySpend spendTx"
  by (simp add: isTreasurySpend_def spendTx_def asArray_def asObject_def)

lemma partial_found:
  "spendsFound partialLedger =
     [\<lparr> TxHash = ''bb'', Amount = 25, Payee = ''DsPayee'', ExpiryHeight = 900100,
        CurrentHeight = 900000, BlocksRemaining = 100, Status = ''voting'' \<rparr>]"
proof -
  have "List.map_filter (getTransaction partialLedger) (mempoolKeys partialLedger) = [spendTx]"
    by (simp add: partialLedger_def tipLedger_def mempoolKeys_def getTransaction_def)
  moreover have "extractTSpendInfo spendTx 900000 =
     \<lparr> TxHash = ''bb'', Amount = 25, Payee = ''DsPayee'', ExpiryHeight = 900100,
        CurrentHeight = 900000, BlocksRemaining = 100, Status = ''voting'' \<rparr>"
    by (simp add: extractTSpendInfo_def spendTx_def Let_def truncate_rat_def wrap64_def
        asArray_def asObject_def asFloat_def asString_def)
  moreover have "GetBlockCount partialLedger = Some 900000"
    by (simp add: partialLedger_def tipLedger_def)
  ultimately show ?thesis by (simp add: spendsFound_def spendTx_is_spend)
qed

lemma partial_not_total: "\<not> probe_fails_totally partialLedger"
  by (simp add: probe_fails_totally_def partialLedger_def tipLedger_def)

lemma down_total: "probe_fails_totally downLedger"
  by (simp add: probe_fails_totally_def downLedger_def)

text \<open>
  Claim C8 as the specification states it says that the probe returns an empty list that
  is not \<open>nil\<close> whenever it fails partially or totally, and never returns \<open>nil\<close>. It
  fails in both parts: when one of two mempool transactions cannot be fetched and the
  other is a treasury spend, the list reported by \<open>FetchTreasuryInfo\<close> is not empty; and
  when no client is configured, \<open>GetMempoolTSpends\<close> returns a \<open>nil\<close> list.
\<close>

theorem probe_counterexample:
  "probe_fails_partially partialLedger \<and>
   ActiveTSpends (FetchTreasuryInfo partialLedger) \<noteq> Some [] \<and>
   probe_fails_totally downLedger \<and>
   fst (GetMempoolTSpends downLedger) = None"
proof -
  have 1: "probe_fails_partially partialLedger"
    using partial_not_total
    by (simp add: probe_fails_partially_def partialLedger_def tipLedger_def mempoolKeys_def getTransaction_def)
  have 2: "ActiveTSpends (FetchTreasuryInfo partialLedger) \<noteq> Some []"
    using scanMempool_ok[OF partial_not_total] partial_found
    by (simp add: FetchTreasuryInfo_def Let_def)
  have 3: "fst (GetMempoolTSpends downLedger) = None"
    using scanMempool_fail[OF down_total] by (simp add: GetMempoolTSpends_def)
  show ?thesis using 1 2 3 down_total by simp
qed

text \<open>
  Claim C8, amended. The list of active spends that \<open>FetchTreasuryInfo\<close> reports is
  never \<open>nil\<close>. When the probe fails totally (no client, or the mempool listing cannot be
  obtained or decoded) that list is empty, while \<open>scanMempoolForTSpends\<close> itself returns
  a \<open>nil\<close> list together with an error. When it does not fail totally the reported list
  holds the spends among the transactions that could be fetched (a transaction that
  cannot be fetched is skipped), and \<open>scanMempoolForTSpends\<close> returns that list without
  an error, as \<open>nil\<close> when it is empty.
\<close>

theorem probe_result_list:
  "ActiveTSpends (FetchTreasuryInfo L) \<noteq> None \<and>
   (probe_fails_totally L \<longrightarrow>
      ActiveTSpends (FetchTreasuryInfo L) = Some [] \<and>
      fst (scanMempoolForTSpends L) = None \<and> snd (scanMempoolForTSpends L) \<noteq> None) \<and>
   (\<not> probe_fails_totally L \<longrightarrow>
      ActiveTSpends (FetchTreasuryInfo L) = Some (spendsFound L) \<and>
      snd (scanMempoolForTSpends L) = None \<and>
      fst (scanMempoolForTSpends L) = (if spendsFound L = [] then None else Some (spendsFound L)))"
proof (cases "probe_fails_totally L")
  case True
  then show ?thesis using scanMempool_fail[OF True]
    by (auto simp: FetchTreasuryInfo_def Let_def)
next
  case False
  then show ?thesis using scanMempool_ok[OF False]
    by (auto simp: FetchTreasuryInfo_def Let_def)
qed

text \<open>
  With no client the reported list is empty and the probe's own list is \<open>nil\<close>; with
  one transaction that cannot be fetched the reported list holds the other one.
\<close>

theorem probe_result_list_witness:
  "ActiveTSpends (FetchTreasuryInfo downLedger) = Some [] \<and>
   fst (scanMempoolForTSpends downLedger) = None \<and>
   ActiveTSpends (FetchTreasuryInfo partialLedger) =
     Some [\<lparr> TxHash = ''bb'', Amount = 25, Payee = ''DsPayee'', ExpiryHeight = 900100,
             CurrentHeight = 900000, BlocksRemaining = 100, Status = ''voting'' \<rparr>]"
  using probe_result_list[of downLedger] probe_result_list[of partialLedger]
    down_total partial_not_total partial_found by simp

section \<open>Properties of the tally\<close>

subsection \<open>The counting loops return\<close>

lemma countVotes_stx_total: "\<exists>y n. countVotes_stx uf L h stx (yes, no) = Some (y, n)"
proof (induction stx arbitrary: yes no)
  case Nil
  then show ?case by simp
next
  case (Cons s stx)
  show ?case
  proof (cases "getTransaction L s")
    case None
    then show ?thesis using Cons by simp
  next
    case (Some tx)
    obtain l where l: "parseTSpendVote uf tx h = Some l" using parseTSpendVote_total by blast
    show ?thesis using Some l Cons by simp
  qed
qed

lemma countVotes_block_total: "\<exists>y n. countVotes_block uf L h height (yes, no) = Some (y, n)"
  using countVotes_stx_total by (auto simp: countVotes_block_def split: option.splits)

lemma countTSpendVotesInRange_loop_total:
  "\<exists>y n. countTSpendVotesInRange_loop uf L h height endHeight votes = Some (y, n)"
proof (induction uf L h height endHeight votes rule: countTSpendVotesInRange_loop.induct)
  case (1 uf L txHash height endHeight votes)
  show ?case
  proof (cases "height \<le> endHeight")
    case False
    then show ?thesis by (cases votes) (simp add: countTSpendVotesInRange_loop.simps)
  next
    case True
    obtain y n where b: "countVotes_block uf L txHash height votes = Some (y, n)"
      using countVotes_block_total[of uf L txHash height "fst votes" "snd votes"] by auto
    from 1[OF True b] show ?thesis using True b
      by (subst countTSpendVotesInRange_loop.simps) simp
  qed
qed

lemma countTSpendVotesInRange_total:
  "\<exists>y n. countTSpendVotesInRange uf L h startHeight endHeight = Some (y, n)"
  unfolding countTSpendVotesInRange_def Let_def by (rule countTSpendVotesInRange_loop_total)

subsection \<open>The statistics of the synchronous path\<close>

lemma go_div_5: "go_div (k * 5) 5 = k"
proof -
  have "\<bar>k * 5\<bar> div 5 = \<bar>k\<bar>" by (simp add: abs_mult)
  then show ?thesis by (simp add: go_div_def sgn_mult mult_sgn_abs)
qed

lemma go_div_5_5: "go_div 5 5 = 1"
  by (simp add: go_div_def)

lemma calculateTSpendVotes_confirmed:
  assumes "clientAvailable L" "GetBlockCount L = Some c"
  shows "\<exists>r. calculateTSpendVotes uf L h blockHeight expiry False = Inr r \<and>
           VotingStartBlock r = max (blockHeight - 2880) TreasuryActivationHeight \<and>
           VotingEndBlock r = blockHeight \<and>
           EligibleVotes r = (VotingEndBlock r - VotingStartBlock r) * 5 \<and>
           QuorumRequired r = go_div (EligibleVotes r) 5 \<and>
           VotesCast r = YesVotes r + NoVotes r \<and>
           QuorumAchieved r = (VotesCast r \<ge> QuorumRequired r) \<and>
           ApprovalRate r = (if VotesCast r > 0
                             then of_int (YesVotes r) / of_int (VotesCast r) * 100 else 0)"
proof -
  obtain y n where yn: "countTSpendVotesInRange uf L h
      (if blockHeight - 2880 < TreasuryActivationHeight then TreasuryActivationHeight else blockHeight - 2880)
      blockHeight = Some (y, n)"
    using countTSpendVotesInRange_total by blast
  show ?thesis using assms yn
    by (simp add: calculateTSpendVotes_def Let_def max_def)
qed

subsection \<open>The statistics of the background job\<close>

lemma finalResult_stats:
  "tally_stats (job_totalBlocks j) (finalResult L j) \<and>
   VotingStartBlock (finalResult L j) = job_votingStartBlock j \<and>
   VotingEndBlock (finalResult L j) = job_votingEndBlock j"
  by (simp add: tally_stats_def finalResult_def Let_def)

lemma runJob_from_cache:
  assumes "jobPc j = JobCache"
  shows "job_done j (runJob uf L j e)"
proof -
  have "runJob uf L j e =
        Some (j\<lparr>jobPc := JobExit\<rparr>,
              e\<lparr>votingCache := (votingCache e)(jobTxHash j \<mapsto> finalResult L j),
                voteParsingProgress := (voteParsingProgress e)(jobTxHash j \<mapsto>
                    \<lparr> IsParsing = False, Progress = 100, CurrentBlock = job_votingEndBlock j,
                      TotalBlocks = job_totalBlocks j, YesVotesSoFar = job_yesVotes j,
                      NoVotesSoFar = job_noVotes j \<rparr>),
                parsingJobs := (parsingJobs e)(jobTxHash j := None)\<rparr>)"
    using assms
    apply (subst runJob.simps)
    apply (simp add: calculateTSpendVotesAsync_step_def)
    apply (subst runJob.simps)
    apply (simp add: calculateTSpendVotesAsync_step_def)
    apply (subst runJob.simps)
    apply (simp add: calculateTSpendVotesAsync_step_def)
    apply (subst runJob.simps)
    apply simp
    done
  then show ?thesis using finalResult_stats[of j L] by (simp add: job_done_def)
qed

lemma job_done_cong:
  assumes "job_done j1 res" "jobTxHash j1 = jobTxHash j" "job_totalBlocks j1 = job_totalBlocks j"
    "job_votingStartBlock j1 = job_votingStartBlock j" "job_votingEndBlock j1 = job_votingEndBlock j"
  shows "job_done j res"
  using assms unfolding job_done_def by simp

lemma runJob_from_scan:
  "jobPc j = JobScan \<Longrightarrow> job_done j (runJob uf L j e)"
proof (induction "nat (job_votingEndBlock j + 1 - job_height j)" arbitrary: j e rule: less_induct)
  case less
  obtain j1 e1 where s: "calculateTSpendVotesAsync_step uf L j e = Some (j1, e1)"
    and f: "jobTxHash j1 = jobTxHash j" "job_totalBlocks j1 = job_totalBlocks j"
      "job_votingStartBlock j1 = job_votingStartBlock j" "job_votingEndBlock j1 = job_votingEndBlock j"
      "job_height j1 = job_height j + 1"
      "jobPc j1 = (if job_height j + 1 \<le> job_votingEndBlock j then JobScan else JobCache)"
  proof (cases "fetchStakeTxs L (job_height j)")
    case None
    then show ?thesis using less.prems that
      by (simp add: calculateTSpendVotesAsync_step_def Let_def)
  next
    case (Some stx)
    obtain y n where "countVotes_stx uf L (jobTxHash j) stx (job_yesVotes j, job_noVotes j) = Some (y, n)"
      using countVotes_stx_total by blast
    then show ?thesis using less.prems Some that
      by (simp add: calculateTSpendVotesAsync_step_def Let_def)
  qed
  have r: "runJob uf L j e = runJob uf L j1 e1"
    using less.prems s by (subst runJob.simps) simp
  have "job_done j1 (runJob uf L j1 e1)"
  proof (cases "job_height j + 1 \<le> job_votingEndBlock j")
    case True
    then have "jobPc j1 = JobScan" using f by simp
    moreover have "nat (job_votingEndBlock j1 + 1 - job_height j1) < nat (job_votingEndBlock j + 1 - job_height j)"
      using True f by simp
    ultimately show ?thesis using less.hyps by blast
  next
    case False
    then have "jobPc j1 = JobCache" using f by simp
    then show ?thesis by (rule runJob_from_cache)
  qed
  then show ?case unfolding r using f by (auto intro: job_done_cong)
qed

text \<open>
  A background job that runs to its end against a reachable node caches a tally over the
  window \<open>[max (blockHeight - 2880) 552448, blockHeight]\<close> whose statistics are those of
  the specification for the number of blocks of that window, both ends included.
\<close>

lemma runJob_async:
  assumes "clientAvailable L"
  shows "\<exists>j' e' r. runJob uf L (newJob h blockHeight) e = Some (j', e') \<and>
           votingCache e' h = Some r \<and> parsingJobs e' h = None \<and>
           VotingStartBlock r = max (blockHeight - 2880) TreasuryActivationHeight \<and>
           VotingEndBlock r = blockHeight \<and>
           tally_stats (VotingEndBlock r - VotingStartBlock r + 1) r"
proof -
  define start0 where "start0 = max (blockHeight - 2880) TreasuryActivationHeight"
  have nt: "\<not> blockHeight - start0 > 3000" by (simp add: start0_def max_def)
  obtain j1 e1 where s: "calculateTSpendVotesAsync_step uf L (newJob h blockHeight) e = Some (j1, e1)"
    and f: "jobTxHash j1 = h" "job_totalBlocks j1 = blockHeight - start0 + 1"
      "job_votingStartBlock j1 = start0" "job_votingEndBlock j1 = blockHeight"
      "jobPc j1 = JobScan \<or> jobPc j1 = JobCache"
    using assms nt
    by (simp add: calculateTSpendVotesAsync_step_def newJob_def Let_def start0_def max_def)
  have r: "runJob uf L (newJob h blockHeight) e = runJob uf L j1 e1"
    using s by (subst runJob.simps) (simp add: newJob_def)
  have "job_done j1 (runJob uf L j1 e1)"
    using f(5) runJob_from_scan runJob_from_cache by blast
  then show ?thesis unfolding r job_done_def using f by (auto simp: start0_def)
qed

subsection \<open>The two paths on one spend\<close>

lemma sync_560000:
  "\<exists>r. calculateTSpendVotes uf tipLedger h 560000 expiry False = Inr r \<and>
        VotingStartBlock r = 557120 \<and> VotingEndBlock r = 560000 \<and>
        EligibleVotes r = 14400 \<and> QuorumRequired r = 2880 \<and> \<not> tally_stats 2881 r"
proof -
  have a: "clientAvailable tipLedger" "GetBlockCount tipLedger = Some 900000"
    by (simp_all add: tipLedger_def)
  obtain r where r: "calculateTSpendVotes uf tipLedger h 560000 expiry False = Inr r"
    "VotingStartBlock r = max (560000 - 2880) TreasuryActivationHeight"
    "VotingEndBlock r = 560000"
    "EligibleVotes r = (VotingEndBlock r - VotingStartBlock r) * 5"
    "QuorumRequired r = go_div (EligibleVotes r) 5"
    using calculateTSpendVotes_confirmed[OF a, of uf h 560000 expiry] by blast
  have s: "VotingStartBlock r = 557120" using r(2) by (simp add: TreasuryActivationHeight_def)
  have e: "EligibleVotes r = 14400" using r(3,4) s by simp
  have q: "QuorumRequired r = 2880" using r(5) e go_div_5[of 2880] by simp
  show ?thesis using r(1,3) s e q by (simp add: tally_stats_def)
qed

lemma async_560000:
  "\<exists>j e r. runJob uf tipLedger (newJob h 560000) emptyEngine = Some (j, e) \<and>
        votingCache e h = Some r \<and>
        VotingStartBlock r = 557120 \<and> VotingEndBlock r = 560000 \<and>
        EligibleVotes r = 14405 \<and> QuorumRequired r = 2881 \<and> tally_stats 2881 r"
proof -
  have a: "clientAvailable tipLedger" by (simp add: tipLedger_def)
  obtain j e r where r: "runJob uf tipLedger (newJob h 560000) emptyEngine = Some (j, e)"
    "votingCache e h = Some r"
    "VotingStartBlock r = max (560000 - 2880) TreasuryActivationHeight"
    "VotingEndBlock r = 560000"
    "tally_stats (VotingEndBlock r - VotingStartBlock r + 1) r"
    using runJob_async[OF a, of uf h 560000 emptyEngine] by blast
  have s: "VotingStartBlock r = 557120" using r(3) by (simp add: TreasuryActivationHeight_def)
  have t: "tally_stats 2881 r" using r(5) r(4) s by simp
  then have e: "EligibleVotes r = 14405" by (simp add: tally_stats_def)
  have q: "QuorumRequired r = 2881" using t e go_div_5[of 2881] by (simp add: tally_stats_def)
  show ?thesis using r(1,2,4) s t e q by blast
qed

lemma mempool_900100:
  "\<exists>r. calculateTSpendVotes uf tipLedger h blockHeight 900100 True = Inr r \<and>
        VotingStartBlock r = 897120 \<and> VotingEndBlock r = 900100 \<and>
        EligibleVotes r = 14900 \<and> \<not> tally_stats 2981 r"
proof -
  obtain y n where yn: "countTSpendVotesInRange uf tipLedger h 897120 900100 = Some (y, n)"
    using countTSpendVotesInRange_total by blast
  show ?thesis using yn
    by (simp add: calculateTSpendVotes_def tipLedger_def Let_def tally_stats_def)
qed

lemma run_append: "run uf (xs @ ys) cfg = run uf ys (run uf xs cfg)"
  by (induction xs arbitrary: cfg) auto

text \<open>
  Claim C2 (final statistics) holds on the background path and fails on the synchronous
  path. For a confirmed spend at block 560000 the window is \<open>[557120, 560000]\<close>, 2881
  blocks. The synchronous function reports 14400 eligible votes and a quorum of 2880,
  which are the figures of 2880 blocks; the background job caches 14405 and 2881. For a
  mempool spend that expires at 900100 on a chain at 900000 the window is
  \<open>[897120, 900100]\<close>, 2981 blocks, and the synchronous function reports 14900
  eligible votes, the figure of 2980 blocks. The last part shows a schedule in which a
  call for the confirmed spend returns the result of the synchronous function.
\<close>

theorem tally_paths_disagree:
  "(\<exists>r. calculateTSpendVotes noUnicodeFold tipLedger demoHashHex 560000 0 False = Inr r \<and>
        VotingStartBlock r = 557120 \<and> VotingEndBlock r = 560000 \<and>
        EligibleVotes r = 14400 \<and> QuorumRequired r = 2880 \<and> \<not> tally_stats 2881 r) \<and>
   (\<exists>j e r. runJob noUnicodeFold tipLedger (newJob demoHashHex 560000) emptyEngine = Some (j, e) \<and>
        votingCache e demoHashHex = Some r \<and>
        VotingStartBlock r = 557120 \<and> VotingEndBlock r = 560000 \<and>
        EligibleVotes r = 14405 \<and> QuorumRequired r = 2881 \<and> tally_stats 2881 r) \<and>
   (\<exists>r. calculateTSpendVotes noUnicodeFold tipLedger demoHashHex 0 900100 True = Inr r \<and>
        VotingStartBlock r = 897120 \<and> VotingEndBlock r = 900100 \<and>
        EligibleVotes r = 14900 \<and> \<not> tally_stats 2981 r) \<and>
   callPc (calls (run noUnicodeFold fallbackEvents initialConfig) ! 1) =
     Returned (calculateTSpendVotes noUnicodeFold tipLedger demoHashHex 560000 0 False)"
proof -
  have 4: "callPc (calls (run noUnicodeFold fallbackEvents initialConfig) ! 1) =
     Returned (calculateTSpendVotes noUnicodeFold tipLedger demoHashHex 560000 0 False)"
    by (simp add: fallbackEvents_def initialConfig_def step_def
      GetTSpendVotingInfo_step_def emptyEngine_def jobRunning_def Let_def)
  show ?thesis using sync_560000 async_560000 mempool_900100 4 by blast
qed

section \<open>Properties of the tally engine under interleaving\<close>

lemma race_config: "run noUnicodeFold raceEvents initialConfig = afterRace"
  by (simp add: raceEvents_def initialConfig_def afterRace_def step_def demoCall_def
      GetTSpendVotingInfo_step_def emptyEngine_def jobRunning_def Let_def)

text \<open>
  Claim C9 (at most one job per hash) fails. The check that no job is running and the
  registration of the job marker are two critical sections. When two calls for one hash
  both pass the check before either registers, both launch a job: after \<open>raceEvents\<close>
  two jobs for the same hash are active.
\<close>

theorem two_jobs_for_one_hash:
  "activeJobs (run noUnicodeFold raceEvents initialConfig) demoHashHex =
     [newJob demoHashHex 552448, newJob demoHashHex 552448]"
  unfolding race_config by (simp add: afterRace_def activeJobs_def newJob_def)

text \<open>
  A call that starts when the cache holds an entry for its hash returns that entry in its
  first step, changes nothing and launches nothing.
\<close>

lemma cached_call_served:
  assumes "votingCache e h = Some v"
  shows "GetTSpendVotingInfo_step uf L
           \<lparr> callTxHash = h, callBlockHeight = blockHeight, callExpiry = expiry,
             callInMempool = False, callPc = AtCacheCheck \<rparr> e =
         (\<lparr> callTxHash = h, callBlockHeight = blockHeight, callExpiry = expiry,
            callInMempool = False, callPc = Returned (Inr v) \<rparr>, e, None)"
  using assms by (simp add: GetTSpendVotingInfo_step_def)

lemma voteTx_is_vote: "isVoteTransaction voteTx"
  by (simp add: isVoteTransaction_def voteTx_def)

lemma voteTx_yes: "parseTSpendVote uf voteTx demoHashHex = Some ''yes''"
  by (simp add: parseTSpendVote_def voteTx_def demo_payload_yes demoPayload_nonempty)

lemma count_demo_block:
  "countVotes_stx uf votingLedger demoHashHex [''v1''] (0, 0) = Some (1, 0)"
  by (simp add: getTransaction_def votingLedger_def voteTx_is_vote voteTx_yes)

lemma fetch_demo_block: "fetchStakeTxs votingLedger 552448 = Some [''v1'']"
  by (simp add: fetchStakeTxs_def votingLedger_def)

lemma fetch_quiet: "fetchStakeTxs tipLedger h = None"
  by (simp add: fetchStakeTxs_def tipLedger_def)

lemma timestamps_quiet:
  "getBlockTimestamps tipLedger a b = (None, None)"
  "getBlockTimestamps votingLedger 552448 552448 = (None, None)"
  by (simp_all add: getBlockTimestamps_def blockTimestamp_def tipLedger_def votingLedger_def)

lemma startedJob_fields:
  "jobTxHash startedJob = demoHashHex" "job_votingEndBlock startedJob = 552448"
  "job_totalBlocks startedJob = 1" "job_noVotes startedJob = 0" "job_yesVotes startedJob = 0"
  by (simp_all add: startedJob_def)

lemma job_start_step:
  "clientAvailable L \<Longrightarrow>
   calculateTSpendVotesAsync_step uf L (newJob demoHashHex 552448) e =
     Some (startedJob, e\<lparr>voteParsingProgress := (voteParsingProgress e)(demoHashHex \<mapsto> startProgress)\<rparr>)"
  by (simp add: calculateTSpendVotesAsync_step_def newJob_def startedJob_def startProgress_def
      TreasuryActivationHeight_def Let_def)

lemma job_scan_step_vote:
  "calculateTSpendVotesAsync_step uf votingLedger startedJob e =
     Some (startedJob\<lparr>jobPc := JobCache, job_height := 552449, job_yesVotes := 1\<rparr>,
           e\<lparr>voteParsingProgress := (voteParsingProgress e)(demoHashHex \<mapsto> doneProgress 1\<lparr>IsParsing := False\<rparr>)\<rparr>)"
  by (simp add: calculateTSpendVotesAsync_step_def startedJob_def doneProgress_def
      fetch_demo_block count_demo_block Let_def del: countVotes_stx.simps)

lemma job_scan_step_quiet:
  "calculateTSpendVotesAsync_step uf tipLedger startedJob e =
     Some (startedJob\<lparr>jobPc := JobCache, job_height := 552449\<rparr>, e)"
  by (simp add: calculateTSpendVotesAsync_step_def startedJob_def fetch_quiet Let_def)

lemma final_first:
  "finalResult votingLedger (startedJob\<lparr>jobPc := pc, job_height := 552449, job_yesVotes := 1\<rparr>) = firstTally"
  by (simp add: finalResult_def startedJob_def firstTally_def timestamps_quiet go_div_5_5 Let_def)

lemma final_second:
  "finalResult tipLedger (startedJob\<lparr>jobPc := pc, job_height := 552449\<rparr>) = secondTally"
  by (simp add: finalResult_def startedJob_def secondTally_def timestamps_quiet go_div_5_5 Let_def)

lemma job_cache_step:
  "jobPc j = JobCache \<Longrightarrow>
   calculateTSpendVotesAsync_step uf L j e =
     Some (j\<lparr>jobPc := JobMarkDone\<rparr>, e\<lparr>votingCache := (votingCache e)(jobTxHash j \<mapsto> finalResult L j)\<rparr>)"
  by (simp add: calculateTSpendVotesAsync_step_def)

lemma job_markdone_step:
  "jobPc j = JobMarkDone \<Longrightarrow>
   calculateTSpendVotesAsync_step uf L j e =
     Some (j\<lparr>jobPc := JobCleanup\<rparr>,
           e\<lparr>voteParsingProgress := (voteParsingProgress e)(jobTxHash j \<mapsto>
                    \<lparr> IsParsing = False, Progress = 100, CurrentBlock = job_votingEndBlock j,
                      TotalBlocks = job_totalBlocks j, YesVotesSoFar = job_yesVotes j,
                      NoVotesSoFar = job_noVotes j \<rparr>)\<rparr>)"
  by (simp add: calculateTSpendVotesAsync_step_def)

lemma job_cleanup_step:
  "jobPc j = JobCleanup \<Longrightarrow>
   calculateTSpendVotesAsync_step uf L j e =
     Some (j\<lparr>jobPc := JobExit\<rparr>, e\<lparr>parsingJobs := (parsingJobs e)(jobTxHash j := None)\<rparr>)"
  by (simp add: calculateTSpendVotesAsync_step_def)

lemma job_step_config:
  "\<not> panicked cfg \<Longrightarrow> i < length (jobs cfg) \<Longrightarrow>
   calculateTSpendVotesAsync_step uf L (jobs cfg ! i) (shared cfg) = Some (j', e') \<Longrightarrow>
   step uf L (JobStep i) cfg = cfg\<lparr>shared := e', jobs := (jobs cfg)[i := j']\<rparr>"
  by (simp add: step_def)

lemma run_job_first:
  assumes "\<not> panicked cfg" "jobs cfg = [newJob demoHashHex 552448, j2]"
  shows "run uf firstJobEvents cfg =
           cfg\<lparr>shared := (shared cfg)\<lparr>
                   voteParsingProgress := (voteParsingProgress (shared cfg))(demoHashHex \<mapsto> doneProgress 1),
                   votingCache := (votingCache (shared cfg))(demoHashHex \<mapsto> firstTally),
                   parsingJobs := (parsingJobs (shared cfg))(demoHashHex := None)\<rparr>,
               jobs := [doneJob 1, j2]\<rparr>"
proof -
  have ca: "clientAvailable votingLedger" by (simp add: votingLedger_def tipLedger_def)
  define c1 where "c1 = step uf votingLedger (JobStep 0) cfg"
  have 1: "c1 = cfg\<lparr>shared := (shared cfg)\<lparr>voteParsingProgress := (voteParsingProgress (shared cfg))(demoHashHex \<mapsto> startProgress)\<rparr>,
                     jobs := [startedJob, j2]\<rparr>"
    unfolding c1_def using assms job_start_step[OF ca, of uf "shared cfg"]
    by (simp add: job_step_config)
  define c2 where "c2 = step uf votingLedger (JobStep 0) c1"
  have 2: "c2 = cfg\<lparr>shared := (shared cfg)\<lparr>voteParsingProgress := (voteParsingProgress (shared cfg))(demoHashHex \<mapsto> doneProgress 1)\<rparr>,
                     jobs := [startedJob\<lparr>jobPc := JobCache, job_height := 552449, job_yesVotes := 1\<rparr>, j2]\<rparr>"
    unfolding c2_def 1 using assms
    by (simp add: job_step_config job_scan_step_vote doneProgress_def)
  define c3 where "c3 = step uf votingLedger (JobStep 0) c2"
  have 3: "c3 = cfg\<lparr>shared := (shared cfg)\<lparr>voteParsingProgress := (voteParsingProgress (shared cfg))(demoHashHex \<mapsto> doneProgress 1),
                                            votingCache := (votingCache (shared cfg))(demoHashHex \<mapsto> firstTally)\<rparr>,
                     jobs := [startedJob\<lparr>jobPc := JobMarkDone, job_height := 552449, job_yesVotes := 1\<rparr>, j2]\<rparr>"
    unfolding c3_def 2 using assms
    by (simp add: job_step_config job_cache_step final_first startedJob_fields)
  define c4 where "c4 = step uf votingLedger (JobStep 0) c3"
  have 4: "c4 = cfg\<lparr>shared := (shared cfg)\<lparr>voteParsingProgress := (voteParsingProgress (shared cfg))(demoHashHex \<mapsto> doneProgress 1),
                                            votingCache := (votingCache (shared cfg))(demoHashHex \<mapsto> firstTally)\<rparr>,
                     jobs := [startedJob\<lparr>jobPc := JobCleanup, job_height := 552449, job_yesVotes := 1\<rparr>, j2]\<rparr>"
    unfolding c4_def 3 using assms
    by (simp add: job_step_config job_markdone_step startedJob_fields doneProgress_def)
  define c5 where "c5 = step uf votingLedger (JobStep 0) c4"
  have 5: "c5 = cfg\<lparr>shared := (shared cfg)\<lparr>voteParsingProgress := (voteParsingProgress (shared cfg))(demoHashHex \<mapsto> doneProgress 1),
                                            votingCache := (votingCache (shared cfg))(demoHashHex \<mapsto> firstTally),
                                            parsingJobs := (parsingJobs (shared cfg))(demoHashHex := None)\<rparr>,
                     jobs := [doneJob 1, j2]\<rparr>"
    unfolding c5_def 4 using assms
    by (simp add: job_step_config job_cleanup_step startedJob_fields)
       (simp add: startedJob_def doneJob_def)
  have "run uf firstJobEvents cfg = c5"
    by (simp add: firstJobEvents_def c5_def c4_def c3_def c2_def c1_def)
  then show ?thesis using 5 by simp
qed

lemma run_job_second:
  assumes "\<not> panicked cfg" "jobs cfg = [j1, newJob demoHashHex 552448]"
  shows "run uf secondJobEvents cfg =
           cfg\<lparr>shared := (shared cfg)\<lparr>
                   voteParsingProgress := (voteParsingProgress (shared cfg))(demoHashHex \<mapsto> doneProgress 0),
                   votingCache := (votingCache (shared cfg))(demoHashHex \<mapsto> secondTally),
                   parsingJobs := (parsingJobs (shared cfg))(demoHashHex := None)\<rparr>,
               jobs := [j1, doneJob 0]\<rparr>"
proof -
  have ca: "clientAvailable tipLedger" by (simp add: tipLedger_def)
  define c1 where "c1 = step uf tipLedger (JobStep 1) cfg"
  have 1: "c1 = cfg\<lparr>shared := (shared cfg)\<lparr>voteParsingProgress := (voteParsingProgress (shared cfg))(demoHashHex \<mapsto> startProgress)\<rparr>,
                     jobs := [j1, startedJob]\<rparr>"
    unfolding c1_def using assms job_start_step[OF ca, of uf "shared cfg"]
    by (simp add: job_step_config)
  define c2 where "c2 = step uf tipLedger (JobStep 1) c1"
  have 2: "c2 = cfg\<lparr>shared := (shared cfg)\<lparr>voteParsingProgress := (voteParsingProgress (shared cfg))(demoHashHex \<mapsto> startProgress)\<rparr>,
                     jobs := [j1, startedJob\<lparr>jobPc := JobCache, job_height := 552449\<rparr>]\<rparr>"
    unfolding c2_def 1 using assms
    by (simp add: job_step_config job_scan_step_quiet)
  define c3 where "c3 = step uf tipLedger (JobStep 1) c2"
  have 3: "c3 = cfg\<lparr>shared := (shared cfg)\<lparr>voteParsingProgress := (voteParsingProgress (shared cfg))(demoHashHex \<mapsto> startProgress),
                                            votingCache := (votingCache (shared cfg))(demoHashHex \<mapsto> secondTally)\<rparr>,
                     jobs := [j1, startedJob\<lparr>jobPc := JobMarkDone, job_height := 552449\<rparr>]\<rparr>"
    unfolding c3_def 2 using assms
    by (simp add: job_step_config job_cache_step final_second startedJob_fields)
  define c4 where "c4 = step uf tipLedger (JobStep 1) c3"
  have 4: "c4 = cfg\<lparr>shared := (shared cfg)\<lparr>voteParsingProgress := (voteParsingProgress (shared cfg))(demoHashHex \<mapsto> doneProgress 0),
                                            votingCache := (votingCache (shared cfg))(demoHashHex \<mapsto> secondTally)\<rparr>,
                     jobs := [j1, startedJob\<lparr>jobPc := JobCleanup, job_height := 552449\<rparr>]\<rparr>"
    unfolding c4_def 3 using assms
    by (simp add: job_step_config job_markdone_step startedJob_fields doneProgress_def)
  define c5 where "c5 = step uf tipLedger (JobStep 1) c4"
  have 5: "c5 = cfg\<lparr>shared := (shared cfg)\<lparr>voteParsingProgress := (voteParsingProgress (shared cfg))(demoHashHex \<mapsto> doneProgress 0),
                                            votingCache := (votingCache (shared cfg))(demoHashHex \<mapsto> secondTally),
                                            parsingJobs := (parsingJobs (shared cfg))(demoHashHex := None)\<rparr>,
                     jobs := [j1, doneJob 0]\<rparr>"
    unfolding c5_def 4 using assms
    by (simp add: job_step_config job_cleanup_step startedJob_fields)
       (simp add: startedJob_def doneJob_def)
  have "run uf secondJobEvents cfg = c5"
    by (simp add: secondJobEvents_def c5_def c4_def c3_def c2_def c1_def)
  then show ?thesis using 5 by simp
qed

lemma first_job_config: "run noUnicodeFold firstJobEvents afterRace = afterFirstJob"
proof -
  have a: "\<not> panicked afterRace" "jobs afterRace = [newJob demoHashHex 552448, newJob demoHashHex 552448]"
    by (simp_all add: afterRace_def)
  show ?thesis unfolding run_job_first[OF a]
    by (simp add: afterRace_def afterFirstJob_def emptyEngine_def)
qed

lemma second_job_config: "run noUnicodeFold secondJobEvents afterFirstJob = afterSecondJob"
proof -
  have a: "\<not> panicked afterFirstJob" "jobs afterFirstJob = [doneJob 1, newJob demoHashHex 552448]"
    by (simp_all add: afterFirstJob_def afterRace_def)
  show ?thesis unfolding run_job_second[OF a]
    by (simp add: afterRace_def afterFirstJob_def afterSecondJob_def)
qed

text \<open>
  Claim C7 (a cache entry never changes) fails for a call whose launch races with another
  one. After the race above the first job finishes and caches a tally with one yes vote.
  The second job, launched before that write, then runs while the node does not serve the
  block, finishes, and replaces the entry by a tally with no vote.
\<close>

theorem cache_entry_overwritten:
  "votingCache (shared (run noUnicodeFold (raceEvents @ firstJobEvents) initialConfig)) demoHashHex
     = Some firstTally \<and>
   votingCache (shared (run noUnicodeFold (raceEvents @ firstJobEvents @ secondJobEvents)
                          initialConfig)) demoHashHex
     = Some secondTally \<and>
   firstTally \<noteq> secondTally"
proof -
  have 1: "run noUnicodeFold (raceEvents @ firstJobEvents) initialConfig = afterFirstJob"
    by (simp add: run_append race_config first_job_config)
  have 2: "run noUnicodeFold (raceEvents @ firstJobEvents @ secondJobEvents) initialConfig = afterSecondJob"
    by (simp add: run_append race_config first_job_config second_job_config)
  have 3: "YesVotes firstTally \<noteq> YesVotes secondTally" by (simp add: firstTally_def secondTally_def)
  then have 4: "firstTally \<noteq> secondTally" by auto
  show ?thesis unfolding 1 2 using 4 by (simp add: afterFirstJob_def afterSecondJob_def)
qed

end
